theory Spec2Isabelle
  imports Complex_Main "HOL-Library.Sublist"
begin

section \<open>JavaScript string primitives used by the sources\<close>

text \<open>
  Strings are lists of 8-bit characters. Identifiers, file names and markup are ASCII; a
  character beyond ASCII stands as its UTF-8 bytes. None of those bytes is a reserved
  character, a separator or part of a placeholder, so escaping, splitting and
  substitution pass them on unchanged. \<open>toLowerCase\<close> leaves them as they are
  (JavaScript lowers letters beyond ASCII too, none of them to an ASCII letter of a font
  format). The sanitiser of file names works on every UTF-16 code unit of a name: there
  the name is the list of its code units.
\<close>

text \<open>Truthiness of an optional string field, and \<^verbatim>\<open>a || b\<close>: \<^verbatim>\<open>undefined\<close> and
  the empty string are falsy.\<close>

fun truthy :: "string option \<Rightarrow> bool" where
  "truthy None = False"
| "truthy (Some s) = (s \<noteq> [])"

text \<open>\<^verbatim>\<open>!a\<close> for an optional string.\<close>

fun falsy :: "string option \<Rightarrow> bool" where
  "falsy None = True"
| "falsy (Some s) = (s = [])"

definition orElse :: "string option \<Rightarrow> string option \<Rightarrow> string option" where
  "orElse a b = (if truthy a then a else b)"

text \<open>\<^verbatim>\<open>a || ''\<close>.\<close>

fun orEmpty :: "string option \<Rightarrow> string" where
  "orEmpty None = []"
| "orEmpty (Some s) = s"

text \<open>
  \<^verbatim>\<open>String(n)\<close> for a non-negative integer gives its decimal digits when \<open>n\<close> is
  below \<open>10\<^sup>2\<^sup>1\<close>, and exponent notation from there on. The exponent notation is a
  parameter of \<open>numberString\<close>. An index into a list of lines and a time in milliseconds
  stay below the bound and are printed by \<open>decimal\<close>.
\<close>

definition digit :: "nat \<Rightarrow> char" where
  "digit d = char_of (48 + d)"

fun decimal :: "nat \<Rightarrow> string" where
  "decimal n = (if n < 10 then [digit n] else decimal (n div 10) @ [digit (n mod 10)])"

declare decimal.simps [simp del]

definition numberString :: "(nat \<Rightarrow> string) \<Rightarrow> nat \<Rightarrow> string" where
  "numberString exponential n = (if n < 10 ^ 21 then decimal n else exponential n)"


text \<open>\<^verbatim>\<open>s.split(c)\<close> with a one-character separator: never the empty array.\<close>

fun split :: "char \<Rightarrow> string \<Rightarrow> string list" where
  "split c [] = [[]]"
| "split c (x # xs) =
     (if x = c then [] # split c xs
      else (case split c xs of [] \<Rightarrow> [[x]] | w # ws \<Rightarrow> (x # w) # ws))"

text \<open>\<^verbatim>\<open>arr.pop()\<close>: the last element, \<^verbatim>\<open>undefined\<close> on the empty array.\<close>

fun pop :: "'a list \<Rightarrow> 'a option" where
  "pop [] = None"
| "pop [x] = Some x"
| "pop (x # y # ys) = pop (y # ys)"

definition toLowerChar :: "char \<Rightarrow> char" where
  "toLowerChar c =
     (if (65::nat) \<le> of_char c \<and> (of_char c :: nat) \<le> 90 then char_of (of_char c + (32::nat)) else c)"

definition toLowerCase :: "string \<Rightarrow> string" where
  "toLowerCase s = map toLowerChar s"

text \<open>\<^verbatim>\<open>arr.join(sep)\<close>.\<close>

fun join :: "string \<Rightarrow> string list \<Rightarrow> string" where
  "join sep [] = []"
| "join sep [x] = x"
| "join sep (x # y # ys) = x @ sep @ join sep (y # ys)"

text \<open>
  The replacement text of \<^verbatim>\<open>String.prototype.replace\<close> when the replacement is a
  string (ECMAScript GetSubstitution) and the pattern has no capture group, as every
  pattern of the sources: \<^verbatim>\<open>$$\<close> stands for a dollar sign, \<^verbatim>\<open>$&\<close> for the
  matched text, \<^verbatim>\<open>$\<close> followed by a backquote for the text before the match and
  \<^verbatim>\<open>$'\<close> for the text after it; every other character stands for itself.
\<close>

fun getSubstitution :: "string \<Rightarrow> string \<Rightarrow> string \<Rightarrow> string \<Rightarrow> string" where
  "getSubstitution matched preceding following [] = []"
| "getSubstitution matched preceding following [c] = [c]"
| "getSubstitution matched preceding following (c # d # rest) =
     (if c = CHR ''$'' then
        (if d = CHR ''$'' then CHR ''$'' # getSubstitution matched preceding following rest
         else if d = CHR ''&'' then matched @ getSubstitution matched preceding following rest
         else if d = CHR 0x60 then preceding @ getSubstitution matched preceding following rest
         else if d = CHR 0x27 then following @ getSubstitution matched preceding following rest
         else c # getSubstitution matched preceding following (d # rest))
      else c # getSubstitution matched preceding following (d # rest))"

text \<open>
  \<^verbatim>\<open>s.replace(/pat/g, repl)\<close> for a pattern that is a literal text: every match, left
  to right, without rescanning what was inserted. \<open>preceding\<close> is the part of the subject
  already passed. (No pattern of the sources is empty; an empty one changes nothing here.)
\<close>

function replaceAllFrom :: "string \<Rightarrow> string \<Rightarrow> string \<Rightarrow> string \<Rightarrow> string" where
  "replaceAllFrom pat repl preceding [] = []"
| "replaceAllFrom pat repl preceding (c # cs) =
     (if pat \<noteq> [] \<and> prefix pat (c # cs) then
        getSubstitution pat preceding (drop (length pat) (c # cs)) repl
          @ replaceAllFrom pat repl (preceding @ pat) (drop (length pat) (c # cs))
      else c # replaceAllFrom pat repl (preceding @ [c]) cs)"
  by pat_completeness auto
termination
  by (relation "measure (\<lambda>(pat, repl, preceding, s). length s)") auto

definition replaceAll :: "string \<Rightarrow> string \<Rightarrow> string \<Rightarrow> string" where
  "replaceAll pat repl s = replaceAllFrom pat repl [] s"

text \<open>
  \<^verbatim>\<open>s.replace(/[class]/g, repl)\<close> for a character class and a replacement without a
  dollar sign (the sources use a space and a hyphen). The class is tested on every
  element of the string, a character or a code unit.
\<close>

definition replaceClass :: "('a \<Rightarrow> bool) \<Rightarrow> 'a list \<Rightarrow> 'a list \<Rightarrow> 'a list" where
  "replaceClass inClass repl s = concat (map (\<lambda>c. if inClass c then repl else [c]) s)"

text \<open>\<^verbatim>\<open>s.replace('pat', '')\<close> with a string pattern: the first occurrence only.\<close>

fun removeFirst :: "string \<Rightarrow> string \<Rightarrow> string" where
  "removeFirst pat [] = []"
| "removeFirst pat (c # cs) =
     (if prefix pat (c # cs) then drop (length pat) (c # cs) else c # removeFirst pat cs)"

section \<open>Slides, fonts, layouts\<close>

record slideData =
  carousel_id :: string
  slide_number :: nat
  layout_type :: string
  title :: "string option"
  subtitle :: "string option"
  body_text :: "string option"
  quote :: "string option"
  background_color :: string
  font_color :: string
  accent_color :: string

record fontSettings =
  headingFont :: string
  bodyFont :: string
  accentFont :: string
  googleFonts :: "string list"

record customLayout =
  layout_id :: string
  layout_name :: string
  layout_description :: string
  htmlTemplate :: string
  cssTemplate :: string
  layout_createdAt :: string

record customFont =
  font_id :: string
  font_name :: string
  family :: string
  format :: string
  base64Data :: string
  uploadedAt :: string

record exportPreset =
  preset_id :: string
  preset_name :: string
  preset_width :: real
  preset_height :: real

section \<open>SVG export\<close>

text \<open>
  A template literal is the list of its pieces: the literal chunks, the interpolated
  strings and the interpolated numbers. How JavaScript prints a number is a parameter
  of \<open>toText\<close>, which gives the document as one string.

  The numbers of the source are IEEE doubles. A double is the real number it stands
  for, and every arithmetic operation gives the exact result rounded to a double. The
  rounding \<open>fl\<close> is a parameter of the layouts: the identity is exact arithmetic,
  \<open>roundTo53\<close> is the rounding of doubles, to the nearest number of 53 significant
  binary digits and to the even one of two nearest, without the overflow and underflow
  at the ends of their range. A literal with a fraction, such as
  \<^verbatim>\<open>0.06\<close>, is the rounded value; an integer literal, a width and a height are
  doubles already. \<^verbatim>\<open>Math.min\<close> returns one of its arguments and rounds nothing.
\<close>

definition fadd :: "(real \<Rightarrow> real) \<Rightarrow> real \<Rightarrow> real \<Rightarrow> real" where
  "fadd fl a b = fl (a + b)"

definition fsub :: "(real \<Rightarrow> real) \<Rightarrow> real \<Rightarrow> real \<Rightarrow> real" where
  "fsub fl a b = fl (a - b)"

definition fmul :: "(real \<Rightarrow> real) \<Rightarrow> real \<Rightarrow> real \<Rightarrow> real" where
  "fmul fl a b = fl (a * b)"

definition fdiv :: "(real \<Rightarrow> real) \<Rightarrow> real \<Rightarrow> real \<Rightarrow> real" where
  "fdiv fl a b = fl (a / b)"

definition roundHalfEven :: "real \<Rightarrow> int" where
  "roundHalfEven m =
     (if frac m < 1 / 2 then \<lfloor>m\<rfloor>
      else if 1 / 2 < frac m then \<lfloor>m\<rfloor> + 1
      else if even \<lfloor>m\<rfloor> then \<lfloor>m\<rfloor>
      else \<lfloor>m\<rfloor> + 1)"

definition roundTo53 :: "real \<Rightarrow> real" where
  "roundTo53 x =
     (if x = 0 then 0
      else (let e = \<lfloor>log 2 \<bar>x\<bar>\<rfloor> - 52
            in of_int (roundHalfEven (x / 2 powi e)) * 2 powi e))"

datatype piece = Lit string | Str string | Num real

fun pieceText :: "(real \<Rightarrow> string) \<Rightarrow> piece \<Rightarrow> string" where
  "pieceText numberToString (Lit s) = s"
| "pieceText numberToString (Str s) = s"
| "pieceText numberToString (Num x) = numberToString x"

definition toText :: "(real \<Rightarrow> string) \<Rightarrow> piece list \<Rightarrow> string" where
  "toText numberToString ps = concat (map (pieceText numberToString) ps)"

definition escapeXml :: "string \<Rightarrow> string" where
  "escapeXml text =
     replaceAll [CHR 0x27] ''&apos;''
       (replaceAll [CHR 0x22] ''&quot;''
         (replaceAll ''>'' ''&gt;''
           (replaceAll ''<'' ''&lt;''
             (replaceAll ''&'' ''&amp;'' text))))"

text \<open>The metadata block written for re-import.\<close>

record metadataVariable =
  var_name :: string
  var_element :: string
  var_attr :: "string option"

record svgMetadata =
  meta_layout :: string
  meta_variables :: "metadataVariable list"

definition variableMarkup :: "metadataVariable \<Rightarrow> string" where
  \<open>variableMarkup v =
     ''<goround:var name="'' @ var_name v @ ''" element="'' @ var_element v @ ''"''
       @ (if truthy (var_attr v) then '' attr="'' @ orEmpty (var_attr v) @ ''"'' else [])
       @ ''/>''\<close>

definition generateMetadata :: "(nat \<Rightarrow> string) \<Rightarrow> slideData \<Rightarrow> piece list" where
  \<open>generateMetadata exponential slide =
     (let metadata = \<lparr>meta_layout = layout_type slide,
            meta_variables =
              [\<lparr>var_name = ''title'', var_element = ''title-text'', var_attr = None\<rparr>,
               \<lparr>var_name = ''body_text'', var_element = ''body-text'', var_attr = None\<rparr>,
               \<lparr>var_name = ''subtitle'', var_element = ''subtitle-text'', var_attr = None\<rparr>,
               \<lparr>var_name = ''quote'', var_element = ''quote-text'', var_attr = None\<rparr>,
               \<lparr>var_name = ''background_color'', var_element = ''background'', var_attr = Some ''fill''\<rparr>,
               \<lparr>var_name = ''font_color'', var_element = ''title-text'', var_attr = Some ''fill''\<rparr>,
               \<lparr>var_name = ''accent_color'', var_element = ''accent-element'', var_attr = Some ''fill''\<rparr>]\<rparr>
      in
       [Lit ''\<newline>  <metadata>\<newline>    <goround:slide xmlns:goround="https://goround.dev/schema">\<newline>      <goround:layout>'',
        Str (escapeXml (meta_layout metadata)),
        Lit ''</goround:layout>\<newline>      <goround:carousel_id>'',
        Str (escapeXml (carousel_id slide)),
        Lit ''</goround:carousel_id>\<newline>      <goround:slide_number>'',
        Str (numberString exponential (slide_number slide)),
        Lit ''</goround:slide_number>\<newline>      <goround:variables>\<newline>        '',
        Str (join ''\<newline>        '' (map variableMarkup (meta_variables metadata))),
        Lit ''\<newline>      </goround:variables>\<newline>    </goround:slide>\<newline>  </metadata>''])\<close>

definition renderDictionaryEntry :: "(real \<Rightarrow> real) \<Rightarrow> slideData \<Rightarrow> real \<Rightarrow> real \<Rightarrow> fontSettings \<Rightarrow> piece list" where
  \<open>renderDictionaryEntry fl slide width height fonts =
     (let padding = fmul fl (min width height) (fl 0.06);
          titleSize = fmul fl (min width height) (fl 0.08);
          bodySize = fmul fl (min width height) (fl 0.035);
          subtitleSize = fmul fl (min width height) (fl 0.025)
      in
       [Lit ''\<newline>    <rect id="background" width="'',
        Num width,
        Lit ''" height="'',
        Num height,
        Lit ''" fill="'',
        Str (background_color slide),
        Lit ''"/>\<newline>\<newline>    <g id="content">\<newline>      '']
       @ (if truthy (title slide) then
           [Lit ''\<newline>        <text id="title-text"\<newline>              x="'',
            Num padding,
            Lit ''" y="'',
            Num (fadd fl padding titleSize),
            Lit ''"\<newline>              font-family="'',
            Str (headingFont fonts),
            Lit '', sans-serif"\<newline>              font-size="'',
            Num titleSize,
            Lit ''"\<newline>              font-weight="bold"\<newline>              fill="'',
            Str (font_color slide),
            Lit ''">\<newline>          '',
            Str (escapeXml (orEmpty (title slide))),
            Lit ''\<newline>        </text>\<newline>      '']
        else [])
       @ [Lit ''\<newline>\<newline>      '']
       @ (if truthy (subtitle slide) then
           [Lit ''\<newline>        <text id="subtitle-text"\<newline>              x="'',
            Num padding,
            Lit ''" y="'',
            Num (fadd fl (fadd fl (fadd fl padding titleSize) subtitleSize) 10),
            Lit ''"\<newline>              font-family="'',
            Str (bodyFont fonts),
            Lit '', sans-serif"\<newline>              font-size="'',
            Num subtitleSize,
            Lit ''"\<newline>              font-style="italic"\<newline>              fill="'',
            Str (accent_color slide),
            Lit ''">\<newline>          '',
            Str (escapeXml (orEmpty (subtitle slide))),
            Lit ''\<newline>        </text>\<newline>      '']
        else [])
       @ [Lit ''\<newline>\<newline>      <line id="accent-element"\<newline>            x1="'',
        Num padding,
        Lit ''" y1="'',
        Num (fadd fl (fadd fl (fadd fl padding titleSize) subtitleSize) 30),
        Lit ''"\<newline>            x2="'',
        Num (fsub fl width padding),
        Lit ''" y2="'',
        Num (fadd fl (fadd fl (fadd fl padding titleSize) subtitleSize) 30),
        Lit ''"\<newline>            stroke="'',
        Str (accent_color slide),
        Lit ''"\<newline>            stroke-width="2"/>\<newline>\<newline>      '']
       @ (if truthy (body_text slide) then
           [Lit ''\<newline>        <foreignObject x="'',
            Num padding,
            Lit ''" y="'',
            Num (fadd fl (fadd fl (fadd fl padding titleSize) subtitleSize) 50),
            Lit ''"\<newline>                       width="'',
            Num (fsub fl width (fmul fl padding 2)),
            Lit ''" height="'',
            Num (fsub fl (fsub fl (fsub fl (fsub fl height (fmul fl padding 2)) titleSize) subtitleSize) 60),
            Lit ''">\<newline>          <div xmlns="http://www.w3.org/1999/xhtml"\<newline>               style="font-family: '',
            Str (bodyFont fonts),
            Lit '', sans-serif;\<newline>                      font-size: '',
            Num bodySize,
            Lit ''px;\<newline>                      color: '',
            Str (font_color slide),
            Lit '';\<newline>                      line-height: 1.6;">\<newline>            '',
            Str (escapeXml (orEmpty (body_text slide))),
            Lit ''\<newline>          </div>\<newline>        </foreignObject>\<newline>      '']
        else [])
       @ [Lit ''\<newline>    </g>''])\<close>

definition renderBoldCallout :: "(real \<Rightarrow> real) \<Rightarrow> slideData \<Rightarrow> real \<Rightarrow> real \<Rightarrow> fontSettings \<Rightarrow> piece list" where
  \<open>renderBoldCallout fl slide width height fonts =
     (let padding = fmul fl (min width height) (fl 0.1);
          textSize = fmul fl (min width height) (fl 0.06);
          lines = split CHR ''\<newline>'' (orEmpty (orElse (body_text slide) (title slide)));
          lineHeight = fmul fl textSize (fl 1.4);
          totalHeight = fmul fl (real (length lines)) lineHeight;
          startY = fadd fl (fdiv fl (fsub fl height totalHeight) 2) textSize
      in
       [Lit ''\<newline>    <rect id="background" width="'',
        Num width,
        Lit ''" height="'',
        Num height,
        Lit ''" fill="'',
        Str (background_color slide),
        Lit ''"/>\<newline>\<newline>    <g id="content">\<newline>      '']
       @ concat (map (\<lambda>(i, line).
             [Lit ''\<newline>        <text id="body-text-'',
              Str (decimal i),
              Lit ''"\<newline>              x="'',
              Num (fdiv fl width 2),
              Lit ''" y="'',
              Num (fadd fl startY (fmul fl (real i) lineHeight)),
              Lit ''"\<newline>              font-family="'',
              Str (headingFont fonts),
              Lit '', sans-serif"\<newline>              font-size="'',
              Num textSize,
              Lit ''"\<newline>              font-weight="bold"\<newline>              text-anchor="middle"\<newline>              fill="'',
              Str (font_color slide),
              Lit ''">\<newline>          '',
              Str (escapeXml line),
              Lit ''\<newline>        </text>\<newline>      ''])
           (enumerate 0 lines))
       @ [Lit ''\<newline>    </g>''])\<close>

definition renderHeaderBody :: "(real \<Rightarrow> real) \<Rightarrow> slideData \<Rightarrow> real \<Rightarrow> real \<Rightarrow> fontSettings \<Rightarrow> piece list" where
  \<open>renderHeaderBody fl slide width height fonts =
     (let padding = fmul fl (min width height) (fl 0.08);
          titleSize = fmul fl (min width height) (fl 0.1);
          bodySize = fmul fl (min width height) (fl 0.04)
      in
       [Lit ''\<newline>    <rect id="background" width="'',
        Num width,
        Lit ''" height="'',
        Num height,
        Lit ''" fill="'',
        Str (background_color slide),
        Lit ''"/>\<newline>\<newline>    <g id="content">\<newline>      '']
       @ (if truthy (title slide) then
           [Lit ''\<newline>        <text id="title-text"\<newline>              x="'',
            Num (fdiv fl width 2),
            Lit ''" y="'',
            Num (fmul fl height (fl 0.35)),
            Lit ''"\<newline>              font-family="'',
            Str (headingFont fonts),
            Lit '', sans-serif"\<newline>              font-size="'',
            Num titleSize,
            Lit ''"\<newline>              font-weight="bold"\<newline>              text-anchor="middle"\<newline>              fill="'',
            Str (font_color slide),
            Lit ''">\<newline>          '',
            Str (escapeXml (orEmpty (title slide))),
            Lit ''\<newline>        </text>\<newline>      '']
        else [])
       @ [Lit ''\<newline>\<newline>      <rect id="accent-element"\<newline>            x="'',
        Num (fsub fl (fdiv fl width 2) 50),
        Lit ''" y="'',
        Num (fmul fl height (fl 0.42)),
        Lit ''"\<newline>            width="100" height="4"\<newline>            fill="'',
        Str (accent_color slide),
        Lit ''"/>\<newline>\<newline>      '']
       @ (if truthy (body_text slide) then
           [Lit ''\<newline>        <foreignObject x="'',
            Num padding,
            Lit ''" y="'',
            Num (fmul fl height (fl 0.48)),
            Lit ''"\<newline>                       width="'',
            Num (fsub fl width (fmul fl padding 2)),
            Lit ''" height="'',
            Num (fmul fl height (fl 0.4)),
            Lit ''">\<newline>          <div xmlns="http://www.w3.org/1999/xhtml"\<newline>               style="font-family: '',
            Str (bodyFont fonts),
            Lit '', sans-serif;\<newline>                      font-size: '',
            Num bodySize,
            Lit ''px;\<newline>                      color: '',
            Str (font_color slide),
            Lit '';\<newline>                      text-align: center;\<newline>                      line-height: 1.6;">\<newline>            '',
            Str (escapeXml (orEmpty (body_text slide))),
            Lit ''\<newline>          </div>\<newline>        </foreignObject>\<newline>      '']
        else [])
       @ [Lit ''\<newline>    </g>''])\<close>

definition renderQuoteHighlight :: "(real \<Rightarrow> real) \<Rightarrow> slideData \<Rightarrow> real \<Rightarrow> real \<Rightarrow> fontSettings \<Rightarrow> piece list" where
  \<open>renderQuoteHighlight fl slide width height fonts =
     (let padding = fmul fl (min width height) (fl 0.1);
          quoteSize = fmul fl (min width height) (fl 0.05);
          quoteMarkSize = fmul fl (min width height) (fl 0.15)
      in
       [Lit ''\<newline>    <rect id="background" width="'',
        Num width,
        Lit ''" height="'',
        Num height,
        Lit ''" fill="'',
        Str (background_color slide),
        Lit ''"/>\<newline>\<newline>    <g id="content">\<newline>      <text x="'',
        Num padding,
        Lit ''" y="'',
        Num (fmul fl height (fl 0.25)),
        Lit ''"\<newline>            font-family="Georgia, serif"\<newline>            font-size="'',
        Num quoteMarkSize,
        Lit ''"\<newline>            fill="'',
        Str (accent_color slide),
        Lit ''"\<newline>            opacity="0.3">\<newline>        "\<newline>      </text>\<newline>\<newline>      '']
       @ (if truthy (orElse (quote slide) (body_text slide)) then
           [Lit ''\<newline>        <foreignObject x="'',
            Num (fadd fl padding 20),
            Lit ''" y="'',
            Num (fmul fl height (fl 0.3)),
            Lit ''"\<newline>                       width="'',
            Num (fsub fl (fsub fl width (fmul fl padding 2)) 40),
            Lit ''" height="'',
            Num (fmul fl height (fl 0.4)),
            Lit ''">\<newline>          <div xmlns="http://www.w3.org/1999/xhtml"\<newline>               style="font-family: '',
            Str (accentFont fonts),
            Lit '', serif;\<newline>                      font-size: '',
            Num quoteSize,
            Lit ''px;\<newline>                      font-style: italic;\<newline>                      color: '',
            Str (font_color slide),
            Lit '';\<newline>                      line-height: 1.5;">\<newline>            '',
            Str (escapeXml (orEmpty (orElse (quote slide) (body_text slide)))),
            Lit ''\<newline>          </div>\<newline>        </foreignObject>\<newline>      '']
        else [])
       @ [Lit ''\<newline>\<newline>      '']
       @ (if truthy (title slide) then
           [Lit ''\<newline>        <text id="attribution"\<newline>              x="'',
            Num (fsub fl width padding),
            Lit ''" y="'',
            Num (fmul fl height (fl 0.8)),
            Lit ''"\<newline>              font-family="'',
            Str (bodyFont fonts),
            Lit '', sans-serif"\<newline>              font-size="'',
            Num (fmul fl quoteSize (fl 0.6)),
            Lit ''"\<newline>              text-anchor="end"\<newline>              fill="'',
            Str (accent_color slide),
            Lit (''">\<newline>          '' @ [CHR 0xE2, CHR 0x80, CHR 0x94] @ '' ''),
            Str (escapeXml (orEmpty (title slide))),
            Lit ''\<newline>        </text>\<newline>      '']
        else [])
       @ [Lit ''\<newline>    </g>''])\<close>

definition renderMinimalistFocus :: "(real \<Rightarrow> real) \<Rightarrow> slideData \<Rightarrow> real \<Rightarrow> real \<Rightarrow> fontSettings \<Rightarrow> piece list" where
  \<open>renderMinimalistFocus fl slide width height fonts =
     (let padding = fmul fl (min width height) (fl 0.1);
          titleSize = fmul fl (min width height) (fl 0.06);
          bodySize = fmul fl (min width height) (fl 0.035)
      in
       [Lit ''\<newline>    <rect id="background" width="'',
        Num width,
        Lit ''" height="'',
        Num height,
        Lit ''" fill="'',
        Str (background_color slide),
        Lit ''"/>\<newline>\<newline>    <g id="content">\<newline>      <rect id="accent-element"\<newline>            x="'',
        Num padding,
        Lit ''" y="'',
        Num (fmul fl height (fl 0.4)),
        Lit ''"\<newline>            width="4" height="'',
        Num (fmul fl height (fl 0.2)),
        Lit ''"\<newline>            fill="'',
        Str (accent_color slide),
        Lit ''"/>\<newline>\<newline>      '']
       @ (if truthy (title slide) then
           [Lit ''\<newline>        <text id="title-text"\<newline>              x="'',
            Num (fadd fl padding 20),
            Lit ''" y="'',
            Num (fmul fl height (fl 0.45)),
            Lit ''"\<newline>              font-family="'',
            Str (headingFont fonts),
            Lit '', sans-serif"\<newline>              font-size="'',
            Num titleSize,
            Lit ''"\<newline>              font-weight="bold"\<newline>              fill="'',
            Str (font_color slide),
            Lit ''">\<newline>          '',
            Str (escapeXml (orEmpty (title slide))),
            Lit ''\<newline>        </text>\<newline>      '']
        else [])
       @ [Lit ''\<newline>\<newline>      '']
       @ (if truthy (body_text slide) then
           [Lit ''\<newline>        <foreignObject x="'',
            Num (fadd fl padding 20),
            Lit ''" y="'',
            Num (fmul fl height (fl 0.5)),
            Lit ''"\<newline>                       width="'',
            Num (fsub fl (fsub fl width (fmul fl padding 2)) 20),
            Lit ''" height="'',
            Num (fmul fl height (fl 0.3)),
            Lit ''">\<newline>          <div xmlns="http://www.w3.org/1999/xhtml"\<newline>               style="font-family: '',
            Str (bodyFont fonts),
            Lit '', sans-serif;\<newline>                      font-size: '',
            Num bodySize,
            Lit ''px;\<newline>                      color: '',
            Str (font_color slide),
            Lit '';\<newline>                      line-height: 1.6;">\<newline>            '',
            Str (escapeXml (orEmpty (body_text slide))),
            Lit ''\<newline>          </div>\<newline>        </foreignObject>\<newline>      '']
        else [])
       @ [Lit ''\<newline>    </g>''])\<close>

text \<open>
  A custom layout: the placeholders of the two templates are substituted one after the
  other, each substitution reading the result of the one before.
\<close>

definition renderCustomLayout ::
  "slideData \<Rightarrow> real \<Rightarrow> real \<Rightarrow> fontSettings \<Rightarrow> customLayout \<Rightarrow> piece list" where
  \<open>renderCustomLayout slide width height fonts layout =
     (let html = htmlTemplate layout;
          html = replaceAll ''{{title}}'' (escapeXml (orEmpty (title slide))) html;
          html = replaceAll ''{{body_text}}'' (escapeXml (orEmpty (body_text slide))) html;
          html = replaceAll ''{{subtitle}}'' (escapeXml (orEmpty (subtitle slide))) html;
          html = replaceAll ''{{quote}}'' (escapeXml (orEmpty (quote slide))) html;
          html = replaceAll ''{{background_color}}'' (background_color slide) html;
          html = replaceAll ''{{font_color}}'' (font_color slide) html;
          html = replaceAll ''{{accent_color}}'' (accent_color slide) html;
          html = replaceAll ''{{heading_font}}'' (headingFont fonts) html;
          html = replaceAll ''{{body_font}}'' (bodyFont fonts) html;
          html = replaceAll ''{{accent_font}}'' (accentFont fonts) html;
          css = cssTemplate layout;
          css = replaceAll ''{{background_color}}'' (background_color slide) css;
          css = replaceAll ''{{font_color}}'' (font_color slide) css;
          css = replaceAll ''{{accent_color}}'' (accent_color slide) css;
          css = replaceAll ''{{heading_font}}'' (headingFont fonts) css;
          css = replaceAll ''{{body_font}}'' (bodyFont fonts) css;
          css = replaceAll ''{{accent_font}}'' (accentFont fonts) css
      in
       [Lit ''\<newline>    <rect id="background" width="'',
        Num width,
        Lit ''" height="'',
        Num height,
        Lit ''" fill="'',
        Str (background_color slide),
        Lit ''"/>\<newline>\<newline>    <foreignObject x="0" y="0" width="'',
        Num width,
        Lit ''" height="'',
        Num height,
        Lit ''">\<newline>      <div xmlns="http://www.w3.org/1999/xhtml">\<newline>        <style>'',
        Str css,
        Lit ''</style>\<newline>        '',
        Str html,
        Lit ''\<newline>      </div>\<newline>    </foreignObject>''])\<close>

text \<open>
  The layout is chosen by \<open>layout_type\<close>; \<open>customLayouts\<close> is what
  \<^verbatim>\<open>getAllCustomLayouts()\<close> returns.
\<close>

definition renderLayoutContent ::
  "(real \<Rightarrow> real) \<Rightarrow> customLayout list \<Rightarrow> slideData \<Rightarrow> real \<Rightarrow> real \<Rightarrow> fontSettings
     \<Rightarrow> piece list" where
  "renderLayoutContent fl customLayouts slide width height fonts =
     (if layout_type slide = ''dictionary_entry'' then renderDictionaryEntry fl slide width height fonts
      else if layout_type slide = ''bold_callout'' then renderBoldCallout fl slide width height fonts
      else if layout_type slide = ''header_body'' then renderHeaderBody fl slide width height fonts
      else if layout_type slide = ''quote_highlight'' then renderQuoteHighlight fl slide width height fonts
      else if layout_type slide = ''minimalist_focus'' then renderMinimalistFocus fl slide width height fonts
      else
        (case (if prefix ''custom-'' (layout_type slide)
               then (let layoutId = removeFirst ''custom-'' (layout_type slide)
                     in find (\<lambda>l. layout_id l = layoutId) customLayouts)
               else None) of
           Some layout \<Rightarrow> renderCustomLayout slide width height fonts layout
         | None \<Rightarrow> renderHeaderBody fl slide width height fonts))"

text \<open>
  The font declarations of the document. \<open>generateFontFaceCSS\<close> and the list of custom
  fonts come from the font storage module, which is a parameter here.
\<close>

definition generateEmbeddedFontCSS ::
  "(customFont \<Rightarrow> string) \<Rightarrow> customFont list \<Rightarrow> fontSettings \<Rightarrow> string" where
  "generateEmbeddedFontCSS generateFontFaceCSS customFonts fonts =
     (let usedFonts = {headingFont fonts, bodyFont fonts, accentFont fonts} in
        concat (map (\<lambda>font. generateFontFaceCSS font @ ''\<newline>'')
                  (filter (\<lambda>font. family font \<in> usedFonts) customFonts))
        @ concat (map (\<lambda>family. ''/* Google Font: '' @ family @ '' - Load via CSS link */\<newline>'')
                  (filter (\<lambda>family. family \<in> usedFonts) (googleFonts fonts))))"

text \<open>
  The whole document. \<open>includeMetadata\<close> is \<^verbatim>\<open>options?.includeMetadata\<close>, \<open>None\<close>
  when it is not given.
\<close>

definition slideToSvg ::
  "(real \<Rightarrow> real) \<Rightarrow> (nat \<Rightarrow> string) \<Rightarrow> (customFont \<Rightarrow> string) \<Rightarrow> customFont list
     \<Rightarrow> customLayout list \<Rightarrow> fontSettings \<Rightarrow> slideData \<Rightarrow> exportPreset \<Rightarrow> bool option
     \<Rightarrow> piece list" where
  \<open>slideToSvg fl exponential generateFontFaceCSS customFonts customLayouts fonts slide preset
       includeMetadata =
     (let width = preset_width preset;
          height = preset_height preset;
          fontCSS = generateEmbeddedFontCSS generateFontFaceCSS customFonts fonts;
          layoutContent = renderLayoutContent fl customLayouts slide width height fonts;
          metadata = (if includeMetadata \<noteq> Some False then generateMetadata exponential slide
                      else [])
      in
       [Lit ''<?xml version="1.0" encoding="UTF-8"?>\<newline><svg xmlns="http://www.w3.org/2000/svg"\<newline>     xmlns:xlink="http://www.w3.org/1999/xlink"\<newline>     width="'',
        Num width,
        Lit ''" height="'',
        Num height,
        Lit ''"\<newline>     viewBox="0 0 '',
        Num width,
        Lit '' '',
        Num height,
        Lit ''">\<newline>\<newline>  <defs>\<newline>    <style type="text/css">\<newline>      <![CDATA[\<newline>        '',
        Str fontCSS,
        Lit ''\<newline>\<newline>        /* Default styles */\<newline>        text {\<newline>          dominant-baseline: hanging;\<newline>        }\<newline>      ]]>\<newline>    </style>\<newline>  </defs>\<newline>\<newline>  '']
       @ metadata
       @ [Lit ''\<newline>\<newline>  '']
       @ layoutContent
       @ [Lit ''\<newline>\<newline></svg>''])\<close>







subsection \<open>Notions used to state the properties of the export\<close>

text \<open>The entity that stands for one character, and the five reserved characters.\<close>

definition escapeChar :: "char \<Rightarrow> string" where
  "escapeChar c =
     (if c = CHR ''&'' then ''&amp;''
      else if c = CHR ''<'' then ''&lt;''
      else if c = CHR ''>'' then ''&gt;''
      else if c = CHR 0x22 then ''&quot;''
      else if c = CHR 0x27 then ''&apos;''
      else [c])"

definition isReserved :: "char \<Rightarrow> bool" where
  "isReserved c = (c \<in> set [CHR ''&'', CHR ''<'', CHR ''>'', CHR 0x22, CHR 0x27])"

text \<open>
  How a reader of the document reads character data: each of the five predefined
  entities stands for its character.
\<close>

fun xmlText :: "string \<Rightarrow> string" where
  "xmlText [] = []"
| "xmlText (c # cs) =
     (if c = CHR ''&'' \<and> prefix ''amp;'' cs then CHR ''&'' # xmlText (drop 4 cs)
      else if c = CHR ''&'' \<and> prefix ''lt;'' cs then CHR ''<'' # xmlText (drop 3 cs)
      else if c = CHR ''&'' \<and> prefix ''gt;'' cs then CHR ''>'' # xmlText (drop 3 cs)
      else if c = CHR ''&'' \<and> prefix ''quot;'' cs then CHR 0x22 # xmlText (drop 5 cs)
      else if c = CHR ''&'' \<and> prefix ''apos;'' cs then CHR 0x27 # xmlText (drop 5 cs)
      else c # xmlText cs)"

text \<open>The numbers a template interpolates: the geometric quantities of a rendering.\<close>

fun nums :: "piece list \<Rightarrow> real list" where
  "nums [] = []"
| "nums (Num x # ps) = x # nums ps"
| "nums (p # ps) = nums ps"

text \<open>
  To compare the quantities of two renderings of one slide: the two lists are as long
  as the list of marks, and wherever the mark is set the quantity of the first is
  twice that of the second.
\<close>

fun doubledAt :: "bool list \<Rightarrow> real list \<Rightarrow> real list \<Rightarrow> bool" where
  "doubledAt [] [] [] = True"
| "doubledAt (m # ms) (b # bs) (q # qs) = ((m \<longrightarrow> b = 2 * q) \<and> doubledAt ms bs qs)"
| "doubledAt ms bs qs = False"

text \<open>The strings a template interpolates.\<close>

fun strs :: "piece list \<Rightarrow> string list" where
  "strs [] = []"
| "strs (Str s # ps) = s # strs ps"
| "strs (p # ps) = strs ps"

text \<open>
  The literal chunks of a rendering, and whether one of them contains a given piece of
  markup: an element is present when the template text that opens it is.
\<close>

fun lits :: "piece list \<Rightarrow> string list" where
  "lits [] = []"
| "lits (Lit s # ps) = s # lits ps"
| "lits (p # ps) = lits ps"

definition mentions :: "string \<Rightarrow> piece list \<Rightarrow> bool" where
  "mentions marker ps = list_ex (sublist marker) (lits ps)"



section \<open>The localStorage provider\<close>

text \<open>
  A rejected promise or a thrown value. \<open>Thrown\<close> is a value that is not an instance
  of \<^verbatim>\<open>Error\<close>.
\<close>

datatype exn = Error string | SyntaxError | StorageError | Thrown string

fun instanceofError :: "exn \<Rightarrow> bool" where
  "instanceofError (Thrown v) = False"
| "instanceofError e = True"

definition tryCatch :: "exn + 'a \<Rightarrow> (exn \<Rightarrow> exn + 'a) \<Rightarrow> exn + 'a" where
  "tryCatch body handler = (case body of Inl e \<Rightarrow> handler e | Inr v \<Rightarrow> Inr v)"

definition andThen :: "exn + 'a \<Rightarrow> ('a \<Rightarrow> exn + 'b) \<Rightarrow> exn + 'b" where
  "andThen r f = (case r of Inl e \<Rightarrow> Inl e | Inr v \<Rightarrow> f v)"

record carousel =
  carousel_name :: string
  slides :: "slideData list"

record project =
  project_id :: string
  project_name :: string
  carousels :: "carousel list"
  createdAt :: string
  modifiedAt :: string
  description :: "string option"

text \<open>
  What one key of localStorage holds, seen through \<^verbatim>\<open>JSON.parse\<close>: nothing
  (\<^verbatim>\<open>getItem\<close> returns null), the empty text, a text that \<^verbatim>\<open>JSON.parse\<close> rejects,
  or the text of a value. A text that parses is taken to stand for a value of the
  shape the reader expects.
\<close>

datatype 'a item = Missing | Blank | Garbled | Value 'a

record storage =
  readable :: bool
  projects_item :: "project list item"
  layouts_item :: "customLayout list item"
  fonts_item :: "customFont list item"
  settings_item :: "fontSettings item"

text \<open>\<^verbatim>\<open>localStorage.getItem(key)\<close>: it throws when the storage cannot be accessed.\<close>

definition getItem :: "storage \<Rightarrow> (storage \<Rightarrow> 'a item) \<Rightarrow> exn + 'a item" where
  "getItem st key = (if readable st then Inr (key st) else Inl StorageError)"

fun truthyItem :: "'a item \<Rightarrow> bool" where
  "truthyItem Missing = False"
| "truthyItem Blank = False"
| "truthyItem Garbled = True"
| "truthyItem (Value v) = True"

fun JSON_parse :: "'a item \<Rightarrow> exn + 'a" where
  "JSON_parse (Value v) = Inr v"
| "JSON_parse other = Inl SyntaxError"

definition DEFAULT_FONT_SETTINGS_VALUE :: fontSettings where
  "DEFAULT_FONT_SETTINGS_VALUE =
     \<lparr>headingFont = ''AT-Kyrios Standard'', bodyFont = ''AT-Kyrios Text'',
      accentFont = ''Merriweather'', googleFonts = []\<rparr>"

definition getAllProjects :: "storage \<Rightarrow> exn + project list" where
  "getAllProjects st =
     tryCatch
       (andThen (getItem st projects_item)
          (\<lambda>stored. if truthyItem stored then JSON_parse stored else Inr []))
       (\<lambda>error. Inr [])"

definition getAllCustomLayouts :: "storage \<Rightarrow> exn + customLayout list" where
  "getAllCustomLayouts st =
     tryCatch
       (andThen (getItem st layouts_item)
          (\<lambda>stored. if truthyItem stored then JSON_parse stored else Inr []))
       (\<lambda>error. Inr [])"

definition getAllCustomFonts :: "storage \<Rightarrow> exn + customFont list" where
  "getAllCustomFonts st =
     tryCatch
       (andThen (getItem st fonts_item)
          (\<lambda>stored. if truthyItem stored then JSON_parse stored else Inr []))
       (\<lambda>error. Inr [])"

definition getFontSettings :: "storage \<Rightarrow> exn + fontSettings" where
  "getFontSettings st =
     tryCatch
       (andThen (getItem st settings_item)
          (\<lambda>stored. if truthyItem stored then JSON_parse stored
                     else Inr DEFAULT_FONT_SETTINGS_VALUE))
       (\<lambda>error. Inr DEFAULT_FONT_SETTINGS_VALUE)"

text \<open>
  The helpers of the storage utilities module, which the provider imports. Their code
  is a parameter: the size estimate of a collection, the printing of a byte count, the
  quota of the storage and the guarded write of one key.
\<close>

record quota =
  used :: int
  total :: int
  available :: int

record storageUtils =
  estimateProjects :: "project list \<Rightarrow> int"
  estimateFonts :: "customFont list \<Rightarrow> int"
  formatBytes :: "int \<Rightarrow> string"
  getStorageQuota :: "storage \<Rightarrow> quota"
  safeSetProjects :: "project list \<Rightarrow> storage \<Rightarrow> (exn + unit) \<times> storage"
  safeSetFonts :: "customFont list \<Rightarrow> storage \<Rightarrow> (exn + unit) \<times> storage"

text \<open>
  Modelled from the spec: \<^verbatim>\<open>hasEnoughSpace\<close> of the storage utilities module, which
  is not among the sources. The specification has the size of the write compared with
  the quota's total minus its used part, and the write refused when the size exceeds it.
\<close>

definition hasEnoughSpace :: "quota \<Rightarrow> int \<Rightarrow> bool" where
  "hasEnoughSpace q requiredBytes = (requiredBytes \<le> total q - used q)"

text \<open>\<^verbatim>\<open>arr.findIndex(p)\<close>: \<open>None\<close> stands for -1.\<close>

fun findIndex :: "('a \<Rightarrow> bool) \<Rightarrow> 'a list \<Rightarrow> nat option" where
  "findIndex p [] = None"
| "findIndex p (x # xs) =
     (if p x then Some 0 else map_option Suc (findIndex p xs))"

definition upsert :: "nat option \<Rightarrow> 'a \<Rightarrow> 'a list \<Rightarrow> 'a list" where
  "upsert index x xs = (case index of Some i \<Rightarrow> xs[i := x] | None \<Rightarrow> xs @ [x])"

definition projectQuotaMessage :: "storageUtils \<Rightarrow> int \<Rightarrow> quota \<Rightarrow> string" where
  "projectQuotaMessage utils dataSize q =
     ''Cannot save project: localStorage quota would be exceeded.\<newline>\<newline>''
     @ ''Project data size: '' @ formatBytes utils dataSize @ ''\<newline>''
     @ ''Storage used: '' @ formatBytes utils (used q) @ '' / '' @ formatBytes utils (total q) @ ''\<newline>''
     @ ''Available: '' @ formatBytes utils (available q) @ ''\<newline>\<newline>''
     @ ''Try removing some old projects or custom fonts to free up space.''"

text \<open>
  \<open>saveProject\<close> returns how its promise settles and the storage it leaves.
  \<open>nowIso\<close> is \<^verbatim>\<open>new Date().toISOString()\<close>.
\<close>

definition saveProject ::
  "storageUtils \<Rightarrow> string \<Rightarrow> storage \<Rightarrow> project \<Rightarrow> (exn + unit) \<times> storage" where
  "saveProject utils nowIso st proj =
     (case getAllProjects st of
        Inl e \<Rightarrow> (Inl e, st)
      | Inr projects \<Rightarrow>
          (let index = findIndex (\<lambda>p. project_id p = project_id proj) projects;
               proj = proj\<lparr>modifiedAt := nowIso\<rparr>;
               projects = upsert index proj projects;
               dataSize = estimateProjects utils projects;
               q = getStorageQuota utils st
           in if \<not> hasEnoughSpace q dataSize then
                (Inl (Error (projectQuotaMessage utils dataSize q)), st)
              else
                (case safeSetProjects utils projects st of
                   (Inr u, st') \<Rightarrow> (Inr (), st')
                 | (Inl error, st') \<Rightarrow>
                     (if instanceofError error then (Inl error, st')
                      else (Inl (Error ''Failed to save project''), st')))))"

definition fontQuotaMessage :: "storageUtils \<Rightarrow> int \<Rightarrow> quota \<Rightarrow> string" where
  "fontQuotaMessage utils dataSize q =
     ''Cannot save font: localStorage quota would be exceeded.\<newline>\<newline>''
     @ ''Font size: '' @ formatBytes utils dataSize @ ''\<newline>''
     @ ''Storage used: '' @ formatBytes utils (used q) @ '' / '' @ formatBytes utils (total q) @ ''\<newline>''
     @ ''Available: '' @ formatBytes utils (available q) @ ''\<newline>\<newline>''
     @ ''Try removing some custom fonts or projects to free up space.''"

definition saveCustomFont ::
  "storageUtils \<Rightarrow> storage \<Rightarrow> customFont \<Rightarrow> (exn + unit) \<times> storage" where
  "saveCustomFont utils st font =
     (case getAllCustomFonts st of
        Inl e \<Rightarrow> (Inl e, st)
      | Inr fonts \<Rightarrow>
          (let existing = findIndex (\<lambda>f. font_id f = font_id font) fonts;
               fonts = upsert existing font fonts;
               dataSize = estimateFonts utils fonts;
               q = getStorageQuota utils st
           in if \<not> hasEnoughSpace q dataSize then
                (Inl (Error (fontQuotaMessage utils dataSize q)), st)
              else
                (case safeSetFonts utils fonts st of
                   (Inr u, st') \<Rightarrow> (Inr (), st')
                 | (Inl error, st') \<Rightarrow>
                     (Inl (Error ''Failed to save font. File may be too large.''), st'))))"

text \<open>
  \<^verbatim>\<open>name.replace(/\.[^/.]+$/, '')\<close>: the leftmost dot that is followed, up to the end
  of the name, by one or more characters other than a slash and a dot is removed with
  all that follows it.
\<close>

fun removeExtension :: "string \<Rightarrow> string" where
  "removeExtension [] = []"
| "removeExtension (c # cs) =
     (if c = CHR ''.'' \<and> cs \<noteq> [] \<and> list_all (\<lambda>x. x \<noteq> CHR ''/'' \<and> x \<noteq> CHR ''.'') cs
      then [] else c # removeExtension cs)"

record fontFile =
  file_name :: string
  file_size :: nat

text \<open>
  \<open>uploadFont\<close>: \<open>readResult\<close> is what the file reader delivers, \<open>None\<close> when reading
  fails; \<open>nowMs\<close> and \<open>nowIso\<close> are \<^verbatim>\<open>Date.now()\<close> and
  \<^verbatim>\<open>new Date().toISOString()\<close>. The warning logged for a file above one megabyte
  changes nothing and is left out.
\<close>

definition uploadFont ::
  "storageUtils \<Rightarrow> nat \<Rightarrow> string \<Rightarrow> storage \<Rightarrow> fontFile \<Rightarrow> string option
     \<Rightarrow> (exn + customFont) \<times> storage" where
  "uploadFont utils nowMs nowIso st f readResult =
     (case readResult of
        None \<Rightarrow> (Inl (Error ''Failed to read font file''), st)
      | Some dataUrl \<Rightarrow>
          (let extension = map_option toLowerCase (pop (split (CHR ''.'') (file_name f)))
           in if falsy extension
                 \<or> orEmpty extension \<notin> set [''ttf'', ''otf'', ''woff'', ''woff2'']
              then (Inl (Error ''Unsupported font format. Please use TTF, OTF, WOFF, or WOFF2.''), st)
              else
                (let fontName = removeExtension (file_name f);
                     fontFamily = replaceClass (\<lambda>c. c = CHR ''-'' \<or> c = CHR ''_'') '' '' fontName;
                     font = \<lparr>font_id = ''font-'' @ decimal nowMs, font_name = fontName,
                             family = fontFamily, format = orEmpty extension,
                             base64Data = dataUrl, uploadedAt = nowIso\<rparr>
                 in case saveCustomFont utils st font of
                      (Inl e, st') \<Rightarrow> (Inl e, st')
                    | (Inr u, st') \<Rightarrow> (Inr font, st'))))"

section \<open>The auto-save hook\<close>

datatype saveStatus = StatusSaved | StatusSaving | StatusUnsaved | StatusError

text \<open>
  The state of one mounted hook and of the event loop around it: the clock in
  milliseconds, the pending timeouts (identifier and due time; the callback of each is
  \<open>save\<close>), the times at which \<open>save\<close> was entered, and the calls of the provider's
  \<^verbatim>\<open>saveProject\<close> with their times. \<open>hasUnsavedChanges\<close> is the state variable as
  last set; \<open>renderedUnsaved\<close> is its value in the last render, the one that the
  mounted effects have captured.
\<close>

record autoSave =
  delay :: nat
  enabled :: bool
  saveStatus :: saveStatus
  hasUnsavedChanges :: bool
  renderedUnsaved :: bool
  timerRef :: "nat option"
  projectRef :: "project option"
  isSavingRef :: bool
  clock :: nat
  timers :: "(nat \<times> nat) list"
  nextTimerId :: nat
  saveEntered :: "nat list"
  providerCalls :: "(nat \<times> project) list"

definition clearTimeout :: "nat \<Rightarrow> autoSave \<Rightarrow> autoSave" where
  "clearTimeout ident st = st\<lparr>timers := filter (\<lambda>(i, due). i \<noteq> ident) (timers st)\<rparr>"

definition setTimeout :: "nat \<Rightarrow> autoSave \<Rightarrow> nat \<times> autoSave" where
  "setTimeout ms st =
     (nextTimerId st,
      st\<lparr>timers := timers st @ [(nextTimerId st, clock st + ms)],
         nextTimerId := Suc (nextTimerId st)\<rparr>)"

text \<open>\<open>save\<close> up to its first suspension: it returns at once, or marks the save as in
  flight and calls the provider.\<close>

definition save :: "autoSave \<Rightarrow> autoSave" where
  "save st =
     (let st = st\<lparr>saveEntered := saveEntered st @ [clock st]\<rparr> in
      case projectRef st of
        None \<Rightarrow> st
      | Some proj \<Rightarrow>
          (if isSavingRef st then st
           else st\<lparr>isSavingRef := True, saveStatus := StatusSaving,
                    providerCalls := providerCalls st @ [(clock st, proj)]\<rparr>))"

text \<open>The rest of \<open>save\<close>, run when the provider's promise settles.\<close>

definition saveSettled :: "bool \<Rightarrow> autoSave \<Rightarrow> autoSave" where
  "saveSettled ok st =
     (if ok then st\<lparr>saveStatus := StatusSaved, hasUnsavedChanges := False, isSavingRef := False\<rparr>
      else st\<lparr>saveStatus := StatusError, isSavingRef := False\<rparr>)"

definition markChanged :: "autoSave \<Rightarrow> autoSave" where
  "markChanged st =
     (if \<not> enabled st then st
      else
        (let st = st\<lparr>hasUnsavedChanges := True, saveStatus := StatusUnsaved\<rparr>;
             st = (case timerRef st of Some ident \<Rightarrow> clearTimeout ident st | None \<Rightarrow> st);
             (ident, st) = setTimeout (delay st) st
         in st\<lparr>timerRef := Some ident\<rparr>))"

definition saveNow :: "autoSave \<Rightarrow> autoSave" where
  "saveNow st =
     (let st = (case timerRef st of
                  Some ident \<Rightarrow> (clearTimeout ident st)\<lparr>timerRef := None\<rparr>
                | None \<Rightarrow> st)
      in save st)"

text \<open>
  The effect with the dependency \<^verbatim>\<open>[hasUnsavedChanges]\<close> (\<^verbatim>\<open>useAutoSave.ts\<close>, lines
  127 to 138) does nothing but return a clean-up function. \<open>cleanup\<close> is that function;
  its first argument is the value of \<^verbatim>\<open>hasUnsavedChanges\<close> that it has captured. It
  clears the timeout that \<open>timerRef\<close> holds and, when the captured value is true and a
  project is loaded, calls the provider's \<^verbatim>\<open>saveProject\<close> itself, not through \<open>save\<close>.
\<close>

definition cleanup :: "bool \<Rightarrow> autoSave \<Rightarrow> autoSave" where
  "cleanup captured st =
     (let st = (case timerRef st of Some ident \<Rightarrow> clearTimeout ident st | None \<Rightarrow> st)
      in if captured
         then (case projectRef st of
                 Some proj \<Rightarrow> st\<lparr>providerCalls := providerCalls st @ [(clock st, proj)]\<rparr>
               | None \<Rightarrow> st)
         else st)"

text \<open>
  React renders the component again after an event that has set its state. When
  \<^verbatim>\<open>hasUnsavedChanges\<close> differs from its value in the last render, the effect is run
  again: the clean-up function of the last render runs first, with the value captured
  then. When the value is the same, the effect is left alone. Unmounting the component
  runs the clean-up function of the last render.
\<close>

definition render :: "autoSave \<Rightarrow> autoSave" where
  "render st =
     (if hasUnsavedChanges st = renderedUnsaved st then st
      else (cleanup (renderedUnsaved st) st)\<lparr>renderedUnsaved := hasUnsavedChanges st\<rparr>)"

definition unmount :: "autoSave \<Rightarrow> autoSave" where
  "unmount st = cleanup (renderedUnsaved st) st"

text \<open>
  The event loop: when the clock moves to \<open>t\<close>, the timeouts due by then run in the
  order of their due times, each at its due time.
\<close>

definition fire :: "nat \<times> nat \<Rightarrow> autoSave \<Rightarrow> autoSave" where
  "fire timer st =
     save (st\<lparr>clock := max (clock st) (snd timer),
               timers := filter (\<lambda>(i, due). i \<noteq> fst timer) (timers st)\<rparr>)"

definition advanceTo :: "nat \<Rightarrow> autoSave \<Rightarrow> autoSave" where
  "advanceTo t st =
     (let due = sort_key snd (filter (\<lambda>(i, d). d \<le> t) (timers st));
          st = fold fire due st
      in st\<lparr>clock := max (clock st) t\<rparr>)"

text \<open>
  To state the properties of the hook: every pending timeout is the one that
  \<open>timerRef\<close> holds. This is so when the hook is mounted (no timeout is pending) and
  stays so under every operation.
\<close>

definition timersReferenced :: "autoSave \<Rightarrow> bool" where
  "timersReferenced st = list_all (\<lambda>(i, due). timerRef st = Some i) (timers st)"

section \<open>The list of recent projects\<close>

record recentEntry =
  recent_path :: string
  recent_name :: string
  recent_timestamp :: nat

text \<open>
  The file of recent projects, seen through \<^verbatim>\<open>JSON.parse\<close>: absent, present but
  failing to be read, to be parsed or to hold a list, or the text of a list.
\<close>

datatype recentFile = NoFile | Damaged | Recent "recentEntry list"

text \<open>
  The handler of \<^verbatim>\<open>recent:add\<close>. It returns its success flag and the file it leaves;
  \<open>writable\<close> tells whether writing the file succeeds, \<open>nowMs\<close> is \<^verbatim>\<open>Date.now()\<close>.
\<close>

definition recentAdd ::
  "bool \<Rightarrow> nat \<Rightarrow> recentFile \<Rightarrow> string \<Rightarrow> string \<Rightarrow> bool \<times> recentFile" where
  "recentAdd writable nowMs recentFile projectPath projectName =
     (case (case recentFile of
              NoFile \<Rightarrow> Some []
            | Damaged \<Rightarrow> None
            | Recent stored \<Rightarrow> Some stored) of
        None \<Rightarrow> (False, recentFile)
      | Some recent \<Rightarrow>
          (let recent = filter (\<lambda>r. recent_path r \<noteq> projectPath) recent;
               recent = \<lparr>recent_path = projectPath, recent_name = projectName,
                          recent_timestamp = nowMs\<rparr> # recent;
               recent = take 10 recent
           in if writable then (True, Recent recent) else (False, recentFile)))"

text \<open>
  To state the properties of the list: the entries a file holds, and the file after a
  run of additions that all could be written.
\<close>


fun entries :: "recentFile \<Rightarrow> recentEntry list" where
  "entries NoFile = []"
| "entries Damaged = []"
| "entries (Recent stored) = stored"

fun recentRun :: "(string \<times> string \<times> nat) list \<Rightarrow> recentFile \<Rightarrow> recentFile" where
  "recentRun [] f = f"
| "recentRun ((projectPath, projectName, nowMs) # rest) f =
     recentRun rest (snd (recentAdd True nowMs f projectPath projectName))"

section \<open>Properties of the string primitives\<close>









lemma getSubstitution_plain:
  "CHR ''$'' \<notin> set repl \<Longrightarrow> getSubstitution matched preceding following repl = repl"
  by (induction matched preceding following repl rule: getSubstitution.induct) auto

lemma replaceAllFrom_char:
  "CHR ''$'' \<notin> set repl \<Longrightarrow>
   replaceAllFrom [c] repl preceding s = concat (map (\<lambda>x. if x = c then repl else [x]) s)"
  by (induction s arbitrary: preceding) (auto simp add: getSubstitution_plain)

lemma replaceAll_char:
  "CHR ''$'' \<notin> set repl \<Longrightarrow>
   replaceAll [c] repl s = concat (map (\<lambda>x. if x = c then repl else [x]) s)"
  by (simp add: replaceAll_def replaceAllFrom_char)

lemma concat_map_concat_map:
  "concat (map f (concat (map g xs))) = concat (map (\<lambda>x. concat (map f (g x))) xs)"
  by (induction xs) simp_all

lemma split_nonempty: "split c s \<noteq> []"
  by (induction s) (simp_all split: list.splits)

section \<open>Escaping\<close>

text \<open>
  \<open>escapeXml\<close> works character by character: each of the five reserved characters
  becomes its entity and every other character stays. The five passes do not interfere,
  since no entity contains a character that a later pass replaces.
\<close>

lemma escapeXml_chars: "escapeXml s = concat (map escapeChar s)"
proof -
  have "escapeXml s =
    concat (map (\<lambda>x. concat (map (\<lambda>x. if x = CHR 0x27 then ''&apos;'' else [x])
       (concat (map (\<lambda>x. if x = CHR 0x22 then ''&quot;'' else [x])
         (concat (map (\<lambda>x. if x = CHR ''>'' then ''&gt;'' else [x])
           (concat (map (\<lambda>x. if x = CHR ''<'' then ''&lt;'' else [x])
              (if x = CHR ''&'' then ''&amp;'' else [x]))))))))) s)"
    by (simp add: escapeXml_def replaceAll_char concat_map_concat_map)
  also have "\<dots> = concat (map escapeChar s)"
    by (rule arg_cong [where f = concat], rule map_cong [OF refl]) (simp add: escapeChar_def)
  finally show ?thesis .
qed

lemma escapeXml_unreserved: "list_all (\<lambda>c. \<not> isReserved c) s \<Longrightarrow> escapeXml s = s"
  by (induction s) (simp_all add: escapeXml_chars escapeChar_def isReserved_def)

lemma strs_append: "strs (ps @ qs) = strs ps @ strs qs"
  by (induction ps rule: strs.induct) simp_all

lemma strs_concat_map: "strs (concat (map f xs)) = concat (map (\<lambda>x. strs (f x)) xs)"
  by (induction xs) (simp_all add: strs_append)

text \<open>
  The built-in layouts interpolate no text of the slide but through \<open>escapeXml\<close>: the
  strings they interpolate are the colours, the fonts, the line numbers and the escaped
  text fields (the escaped lines, in the bold callout).
\<close>

lemma builtin_text_escaped:
  "set (strs (renderDictionaryEntry fl slide width height fonts))
     \<subseteq> {background_color slide, font_color slide, accent_color slide,
         headingFont fonts, bodyFont fonts,
         escapeXml (orEmpty (title slide)), escapeXml (orEmpty (subtitle slide)),
         escapeXml (orEmpty (body_text slide))}"
  "set (strs (renderHeaderBody fl slide width height fonts))
     \<subseteq> {background_color slide, font_color slide, accent_color slide,
         headingFont fonts, bodyFont fonts,
         escapeXml (orEmpty (title slide)), escapeXml (orEmpty (body_text slide))}"
  "set (strs (renderQuoteHighlight fl slide width height fonts))
     \<subseteq> {background_color slide, font_color slide, accent_color slide,
         accentFont fonts, bodyFont fonts,
         escapeXml (orEmpty (title slide)),
         escapeXml (orEmpty (orElse (quote slide) (body_text slide)))}"
  "set (strs (renderMinimalistFocus fl slide width height fonts))
     \<subseteq> {background_color slide, font_color slide, accent_color slide,
         headingFont fonts, bodyFont fonts,
         escapeXml (orEmpty (title slide)), escapeXml (orEmpty (body_text slide))}"
  "set (strs (renderBoldCallout fl slide width height fonts))
     \<subseteq> {background_color slide, font_color slide, headingFont fonts}
       \<union> range decimal
       \<union> escapeXml ` set (split CHR ''\<newline>'' (orEmpty (orElse (body_text slide) (title slide))))"
  by (auto simp add: renderDictionaryEntry_def renderHeaderBody_def renderQuoteHighlight_def
      renderMinimalistFocus_def renderBoldCallout_def Let_def strs_append strs_concat_map
      in_set_enumerate_eq)

text \<open>
  C1 at an input where the code departs from it. The built-in layouts interpolate the
  escaped text into a template literal, which embeds it as it is. The custom layout
  passes the escaped text to \<^verbatim>\<open>String.prototype.replace\<close> as the replacement, where a
  dollar sign followed by an ampersand stands for the matched placeholder. For the title
  \<^verbatim>\<open>Q$&A\<close> the escaped text is \<^verbatim>\<open>Q$&amp;A\<close>, and the template
  \<^verbatim>\<open><h1>{{title}}</h1>\<close> becomes \<^verbatim>\<open><h1>Q{{title}}amp;A</h1>\<close>: the ampersand of the
  title is not replaced by its entity in the document.
\<close>

theorem renderCustomLayout_dollar_pattern:
  \<open>escapeXml ''Q$&A'' = ''Q$&amp;A''
   \<and> renderCustomLayout
     \<lparr>carousel_id = ''c1'', slide_number = 1, layout_type = ''custom-promo'',
        title = Some ''Q$&A'', subtitle = None, body_text = None, quote = None,
        background_color = ''#000000'', font_color = ''#ffffff'',
        accent_color = ''#ff0000''\<rparr>
     1080 1080
     \<lparr>headingFont = ''Inter'', bodyFont = ''Inter'', accentFont = ''Merriweather'',
        googleFonts = []\<rparr>
     \<lparr>layout_id = ''promo'', layout_name = ''Promo'', layout_description = '''',
      htmlTemplate = ''<h1>{{title}}</h1>'', cssTemplate = '''', layout_createdAt = ''''\<rparr>
   = [Lit ''\<newline>    <rect id="background" width="'', Num 1080, Lit ''" height="'', Num 1080,
      Lit ''" fill="'', Str ''#000000'',
      Lit ''"/>\<newline>\<newline>    <foreignObject x="0" y="0" width="'', Num 1080, Lit ''" height="'', Num 1080,
      Lit ''">\<newline>      <div xmlns="http://www.w3.org/1999/xhtml">\<newline>        <style>'',
      Str '''', Lit ''</style>\<newline>        '',
      Str ''<h1>Q{{title}}amp;A</h1>'',
      Lit ''\<newline>      </div>\<newline>    </foreignObject>'']\<close>
  by code_simp

section \<open>The fallback layout and the metadata block\<close>

text \<open>
  The metadata block holds the layout as character data, written through \<open>escapeXml\<close>.
  Read back, the escaped text is the text that was written, whatever its characters.
\<close>

lemma xmlText_escapeChar: "xmlText (escapeChar c @ rest) = c # xmlText rest"
  by (simp add: escapeChar_def)

lemma xmlText_escapeXml: "xmlText (escapeXml s) = s"
  by (induction s) (simp_all add: escapeXml_chars xmlText_escapeChar)

text \<open>
  C3. A slide whose \<open>layout_type\<close> is none of the five built-in identifiers and does not
  name a stored custom layout is rendered by the header/body layout; no step of the
  encoding can throw, so the rendering is a plain value. When the metadata is included,
  the document holds the metadata block before that rendering, and the block records
  the slide's own \<open>layout_type\<close> as character data of the document: the text between
  the tags is \<open>escapeXml\<close> of it, which a reader of the document reads back as the
  \<open>layout_type\<close> itself, and which is letter for letter the \<open>layout_type\<close> whenever that
  has none of the five reserved characters.
\<close>

theorem unknown_layout_falls_back:
  assumes \<open>layout_type slide \<notin> set [''dictionary_entry'', ''bold_callout'', ''header_body'',
             ''quote_highlight'', ''minimalist_focus'']\<close>
      and \<open>\<not> prefix ''custom-'' (layout_type slide)
           \<or> find (\<lambda>l. layout_id l = removeFirst ''custom-'' (layout_type slide)) customLayouts = None\<close>
  shows \<open>renderLayoutContent fl customLayouts slide width height fonts
           = renderHeaderBody fl slide width height fonts
         \<and> (includeMetadata \<noteq> Some False \<longrightarrow>
              (\<exists>head. slideToSvg fl exponential generateFontFaceCSS customFonts customLayouts fonts
                         slide preset includeMetadata
                 = head @ generateMetadata exponential slide @ [Lit ''\<newline>\<newline>  '']
                     @ renderHeaderBody fl slide (preset_width preset) (preset_height preset) fonts
                     @ [Lit ''\<newline>\<newline></svg>'']))
         \<and> take 3 (generateMetadata exponential slide)
             = [Lit ''\<newline>  <metadata>\<newline>    <goround:slide xmlns:goround="https://goround.dev/schema">\<newline>      <goround:layout>'',
                Str (escapeXml (layout_type slide)),
                Lit ''</goround:layout>\<newline>      <goround:carousel_id>'']
         \<and> xmlText (escapeXml (layout_type slide)) = layout_type slide
         \<and> (list_all (\<lambda>c. \<not> isReserved c) (layout_type slide)
              \<longrightarrow> escapeXml (layout_type slide) = layout_type slide)\<close>
proof -
  have fallback: "renderLayoutContent fl customLayouts slide w h fonts
      = renderHeaderBody fl slide w h fonts" for w h
    using assms by (auto simp add: renderLayoutContent_def Let_def)
  have document: \<open>includeMetadata \<noteq> Some False \<longrightarrow>
      (\<exists>head. slideToSvg fl exponential generateFontFaceCSS customFonts customLayouts fonts
                 slide preset includeMetadata
         = head @ generateMetadata exponential slide @ [Lit ''\<newline>\<newline>  '']
             @ renderHeaderBody fl slide (preset_width preset) (preset_height preset) fonts
             @ [Lit ''\<newline>\<newline></svg>''])\<close>
    by (simp add: slideToSvg_def Let_def fallback)
  have block: \<open>take 3 (generateMetadata exponential slide)
             = [Lit ''\<newline>  <metadata>\<newline>    <goround:slide xmlns:goround="https://goround.dev/schema">\<newline>      <goround:layout>'',
                Str (escapeXml (layout_type slide)),
                Lit ''</goround:layout>\<newline>      <goround:carousel_id>'']\<close>
    by (simp add: generateMetadata_def Let_def)
  from fallback document block xmlText_escapeXml escapeXml_unreserved show ?thesis by blast
qed

theorem unknown_layout_witness:
  \<open>renderLayoutContent (\<lambda>x. x) []
      \<lparr>carousel_id = ''c1'', slide_number = 1, layout_type = ''custom-missing-id'',
        title = Some ''Go Live'', subtitle = None, body_text = None, quote = None,
        background_color = ''#000000'', font_color = ''#ffffff'',
        accent_color = ''#ff0000''\<rparr>
      1080 1080 \<lparr>headingFont = ''Inter'', bodyFont = ''Inter'', accentFont = ''Merriweather'',
        googleFonts = []\<rparr>
    = renderHeaderBody (\<lambda>x. x)
      \<lparr>carousel_id = ''c1'', slide_number = 1, layout_type = ''custom-missing-id'',
        title = Some ''Go Live'', subtitle = None, body_text = None, quote = None,
        background_color = ''#000000'', font_color = ''#ffffff'',
        accent_color = ''#ff0000''\<rparr>
      1080 1080 \<lparr>headingFont = ''Inter'', bodyFont = ''Inter'', accentFont = ''Merriweather'',
        googleFonts = []\<rparr>
   \<and> take 3 (generateMetadata (\<lambda>n. [])
      \<lparr>carousel_id = ''c1'', slide_number = 1, layout_type = ''custom-missing-id'',
        title = Some ''Go Live'', subtitle = None, body_text = None, quote = None,
        background_color = ''#000000'', font_color = ''#ffffff'',
        accent_color = ''#ff0000''\<rparr>)
     = [Lit ''\<newline>  <metadata>\<newline>    <goround:slide xmlns:goround="https://goround.dev/schema">\<newline>      <goround:layout>'',
        Str ''custom-missing-id'',
        Lit ''</goround:layout>\<newline>      <goround:carousel_id>'']
   \<and> xmlText ''custom-missing-id'' = ''custom-missing-id''\<close>
proof -
  let ?slide = \<open>\<lparr>carousel_id = ''c1'', slide_number = 1, layout_type = ''custom-missing-id'',
        title = Some ''Go Live'', subtitle = None, body_text = None, quote = None,
        background_color = ''#000000'', font_color = ''#ffffff'',
        accent_color = ''#ff0000''\<rparr>\<close>
  let ?fonts = \<open>\<lparr>headingFont = ''Inter'', bodyFont = ''Inter'', accentFont = ''Merriweather'',
        googleFonts = []\<rparr>\<close>
  have known: \<open>layout_type ?slide \<notin> set [''dictionary_entry'', ''bold_callout'', ''header_body'',
             ''quote_highlight'', ''minimalist_focus'']\<close>
    by simp
  have stored: \<open>\<not> prefix ''custom-'' (layout_type ?slide)
      \<or> find (\<lambda>l. layout_id l = removeFirst ''custom-'' (layout_type ?slide)) [] = None\<close>
    by simp
  have plain: \<open>list_all (\<lambda>c. \<not> isReserved c) (layout_type ?slide)\<close>
    by (simp add: isReserved_def)
  from unknown_layout_falls_back [OF known stored, of "\<lambda>x. x" 1080 1080 ?fonts None "\<lambda>n. []"] plain
  show ?thesis by simp
qed

section \<open>Geometry of the built-in layouts\<close>

lemma nums_append: "nums (ps @ qs) = nums ps @ nums qs"
  by (induction ps rule: nums.induct) simp_all

lemma nums_concat_map: "nums (concat (map f xs)) = concat (map (\<lambda>x. nums (f x)) xs)"
  by (induction xs) (simp_all add: nums_append)

lemma min_double: "min (2 * w) (2 * h) = 2 * min w (h::real)"
  by (simp add: min_def)

lemma scaled_lines:
  assumes "\<And>p. f2 p = map ((*) (2::real)) (f p)"
  shows "concat (map f2 E) = map ((*) 2) (concat (map f E))"
proof -
  have "f2 = (\<lambda>p. map ((*) 2) (f p))" using assms by (rule ext)
  then show ?thesis by (simp add: map_concat comp_def)
qed

text \<open>
  Doubling a double is exact: rounding to 53 significant binary digits commutes with
  it, and an integer of less than 53 binary digits is a double.
\<close>

lemma floor_log2_double:
  assumes "x \<noteq> (0::real)"
  shows "\<lfloor>log 2 \<bar>2 * x\<bar>\<rfloor> = \<lfloor>log 2 \<bar>x\<bar>\<rfloor> + 1"
proof -
  have "log 2 \<bar>2 * x\<bar> = log 2 (2 * \<bar>x\<bar>)" by (simp add: abs_mult)
  also have "\<dots> = 1 + log 2 \<bar>x\<bar>" using assms by (simp add: log_mult)
  finally show ?thesis by simp
qed

lemma roundTo53_double: "roundTo53 (2 * x) = 2 * roundTo53 x"
proof (cases "x = 0")
  case True
  then show ?thesis by (simp add: roundTo53_def)
next
  case False
  have "(2::real) powi (\<lfloor>log 2 \<bar>x\<bar>\<rfloor> + 1 - 52) = 2 * 2 powi (\<lfloor>log 2 \<bar>x\<bar>\<rfloor> - 52)"
    by (simp add: power_int_add power_int_diff)
  with False show ?thesis
    by (simp add: roundTo53_def Let_def floor_log2_double)
qed

lemma roundHalfEven_of_int: "roundHalfEven (of_int k) = k"
  by (simp add: roundHalfEven_def)

lemma roundTo53_of_int:
  assumes "\<bar>n\<bar> < 2 ^ 53"
  shows "roundTo53 (of_int n) = of_int n"
proof (cases "n = 0")
  case True
  then show ?thesis by (simp add: roundTo53_def)
next
  case False
  define e where "e = \<lfloor>log 2 \<bar>of_int n :: real\<bar>\<rfloor> - 52"
  have pos: "0 < \<bar>of_int n :: real\<bar>" using False by simp
  have "\<bar>of_int n :: real\<bar> < 2 ^ 53"
    using assms by (metis of_int_abs of_int_less_numeral_power_cancel_iff)
  then have "log 2 \<bar>of_int n :: real\<bar> < 53"
    using pos by (simp add: log_less_iff powr_realpow flip: powr_realpow)
  then have "\<lfloor>log 2 \<bar>of_int n :: real\<bar>\<rfloor> \<le> 52" by linarith
  then have "e \<le> 0" by (simp add: e_def)
  then obtain k where k: "e = - int k" by (metis nat_0_le neg_le_0_iff_le minus_minus)
  have p: "(2::real) powi e = 1 / 2 ^ k" by (simp add: k power_int_minus field_simps)
  have "of_int n / (2::real) powi e = of_int (n * 2 ^ k)" by (simp add: p)
  then have "roundHalfEven (of_int n / (2::real) powi e) = n * 2 ^ k"
    by (simp only: roundHalfEven_of_int)
  then have "of_int (roundHalfEven (of_int n / (2::real) powi e)) * (2::real) powi e = of_int n"
    by (simp add: p)
  with False show ?thesis by (simp add: roundTo53_def Let_def e_def)
qed

text \<open>
  With such a rounding, an operation on doubled operands gives the doubled result.
\<close>

lemma fadd_double:
  assumes "\<And>x. fl (2 * x) = 2 * fl x"
  shows "fadd fl (2 * a) (2 * b) = 2 * fadd fl a b"
proof -
  have "2 * a + 2 * b = 2 * (a + b)" by simp
  then show ?thesis by (simp only: fadd_def assms)
qed

lemma fsub_double:
  assumes "\<And>x. fl (2 * x) = 2 * fl x"
  shows "fsub fl (2 * a) (2 * b) = 2 * fsub fl a b"
proof -
  have "2 * a - 2 * b = 2 * (a - b)" by simp
  then show ?thesis by (simp only: fsub_def assms)
qed

lemma fmul_double_left:
  assumes "\<And>x. fl (2 * x) = 2 * fl x"
  shows "fmul fl (2 * a) c = 2 * fmul fl a c"
proof -
  have "2 * a * c = 2 * (a * c)" by simp
  then show ?thesis by (simp only: fmul_def assms)
qed

lemma fmul_double_right:
  assumes "\<And>x. fl (2 * x) = 2 * fl x"
  shows "fmul fl c (2 * a) = 2 * fmul fl c a"
proof -
  have "c * (2 * a) = 2 * (c * a)" by simp
  then show ?thesis by (simp only: fmul_def assms)
qed

lemma fdiv_double:
  assumes "\<And>x. fl (2 * x) = 2 * fl x"
  shows "fdiv fl (2 * a) c = 2 * fdiv fl a c"
proof -
  have "2 * a / c = 2 * (a / c)" by simp
  then show ?thesis by (simp only: fdiv_def assms)
qed

lemmas doubles = min_double fadd_double fsub_double fmul_double_left fmul_double_right
  fdiv_double

lemma renderBoldCallout_nums:
  "nums (renderBoldCallout fl slide width height fonts) =
     (let textSize = fmul fl (min width height) (fl 0.06);
          lines = split CHR ''\<newline>'' (orEmpty (orElse (body_text slide) (title slide)));
          lineHeight = fmul fl textSize (fl 1.4);
          totalHeight = fmul fl (real (length lines)) lineHeight;
          startY = fadd fl (fdiv fl (fsub fl height totalHeight) 2) textSize
      in [width, height]
         @ concat (map (\<lambda>(i, line).
               [fdiv fl width 2, fadd fl startY (fmul fl (real i) lineHeight), textSize])
             (enumerate 0 lines)))"
  by (simp add: renderBoldCallout_def Let_def nums_append nums_concat_map case_prod_unfold)

lemma renderBoldCallout_doubles:
  assumes "\<And>x. fl (2 * x) = 2 * fl x"
  shows "nums (renderBoldCallout fl slide (2 * width) (2 * height) fonts)
     = map ((*) 2) (nums (renderBoldCallout fl slide width height fonts))"
  unfolding renderBoldCallout_nums Let_def map_append
  apply (rule arg_cong2 [where f = "(@)"])
   apply simp
  apply (rule scaled_lines)
  apply (simp add: case_prod_unfold doubles assms)
  done

lemma renderDictionaryEntry_doubles:
  assumes "\<And>x. fl (2 * x) = 2 * fl x"
  shows "doubledAt
     ([True, True]
      @ (if truthy (title slide) then [True, True, True] else [])
      @ (if truthy (subtitle slide) then [True, False, True] else [])
      @ [True, False, True, False]
      @ (if truthy (body_text slide) then [True, False, True, False, True] else []))
     (nums (renderDictionaryEntry fl slide (2 * width) (2 * height) fonts))
     (nums (renderDictionaryEntry fl slide width height fonts))"
  by (simp add: renderDictionaryEntry_def Let_def nums_append doubles assms)

lemma renderHeaderBody_doubles:
  assumes "\<And>x. fl (2 * x) = 2 * fl x"
  shows "doubledAt
     ([True, True]
      @ (if truthy (title slide) then [True, True, True] else [])
      @ [False, True]
      @ (if truthy (body_text slide) then [True, True, True, True, True] else []))
     (nums (renderHeaderBody fl slide (2 * width) (2 * height) fonts))
     (nums (renderHeaderBody fl slide width height fonts))"
  by (simp add: renderHeaderBody_def Let_def nums_append doubles assms)

lemma renderQuoteHighlight_doubles:
  assumes "\<And>x. fl (2 * x) = 2 * fl x"
  shows "doubledAt
     ([True, True, True, True, True]
      @ (if truthy (orElse (quote slide) (body_text slide))
         then [False, True, False, True, True] else [])
      @ (if truthy (title slide) then [True, True, True] else []))
     (nums (renderQuoteHighlight fl slide (2 * width) (2 * height) fonts))
     (nums (renderQuoteHighlight fl slide width height fonts))"
  by (simp add: renderQuoteHighlight_def Let_def nums_append doubles assms)

lemma renderMinimalistFocus_doubles:
  assumes "\<And>x. fl (2 * x) = 2 * fl x"
  shows "doubledAt
     ([True, True, True, True, True]
      @ (if truthy (title slide) then [False, True, True] else [])
      @ (if truthy (body_text slide) then [False, True, False, True, True] else []))
     (nums (renderMinimalistFocus fl slide (2 * width) (2 * height) fonts))
     (nums (renderMinimalistFocus fl slide width height fonts))"
  by (simp add: renderMinimalistFocus_def Let_def nums_append doubles assms)

text \<open>
  C4, as the code has it. The arithmetic is that of doubles, with any rounding that
  commutes with doubling, as the rounding of doubles does between underflow and
  overflow. In the bold callout every interpolated number doubles when width and
  height double. In the other four built-in layouts the numbers marked \<open>True\<close> below
  double: the width and the height, the paddings, the font sizes, and the positions and
  sizes that are built from these and from fractions of the width and of the height
  alone. The numbers marked \<open>False\<close> are built with a fixed number of pixels, and nothing
  is stated of them: in the dictionary entry the \<open>y\<close> of the subtitle (10 pixels), of
  the rule (30, at both of its ends) and of the body (50) and the height of the body
  (60); in the header/body layout the \<open>x\<close> of the accent bar (50); in the quote highlight
  the \<open>x\<close> (20) and the width (40) of the quote; in the minimalist focus the \<open>x\<close> of the
  title and of the body (20) and the width of the body (20).
\<close>

theorem builtin_layouts_scale:
  assumes "\<And>x. fl (2 * x) = 2 * fl x"
  shows "nums (renderBoldCallout fl slide (2 * width) (2 * height) fonts)
     = map ((*) 2) (nums (renderBoldCallout fl slide width height fonts))
   \<and> doubledAt
     ([True, True]
      @ (if truthy (title slide) then [True, True, True] else [])
      @ (if truthy (subtitle slide) then [True, False, True] else [])
      @ [True, False, True, False]
      @ (if truthy (body_text slide) then [True, False, True, False, True] else []))
     (nums (renderDictionaryEntry fl slide (2 * width) (2 * height) fonts))
     (nums (renderDictionaryEntry fl slide width height fonts))
   \<and> doubledAt
     ([True, True]
      @ (if truthy (title slide) then [True, True, True] else [])
      @ [False, True]
      @ (if truthy (body_text slide) then [True, True, True, True, True] else []))
     (nums (renderHeaderBody fl slide (2 * width) (2 * height) fonts))
     (nums (renderHeaderBody fl slide width height fonts))
   \<and> doubledAt
     ([True, True, True, True, True]
      @ (if truthy (orElse (quote slide) (body_text slide))
         then [False, True, False, True, True] else [])
      @ (if truthy (title slide) then [True, True, True] else []))
     (nums (renderQuoteHighlight fl slide (2 * width) (2 * height) fonts))
     (nums (renderQuoteHighlight fl slide width height fonts))
   \<and> doubledAt
     ([True, True, True, True, True]
      @ (if truthy (title slide) then [False, True, True] else [])
      @ (if truthy (body_text slide) then [False, True, False, True, True] else []))
     (nums (renderMinimalistFocus fl slide (2 * width) (2 * height) fonts))
     (nums (renderMinimalistFocus fl slide width height fonts))"
  by (intro conjI)
    (rule renderBoldCallout_doubles [of fl, OF assms]
      renderDictionaryEntry_doubles [of fl, OF assms]
      renderHeaderBody_doubles [of fl, OF assms]
      renderQuoteHighlight_doubles [of fl, OF assms]
      renderMinimalistFocus_doubles [of fl, OF assms])+

theorem builtin_layouts_scale_witness:
  "nums (renderBoldCallout roundTo53
      \<lparr>carousel_id = ''c1'', slide_number = 1, layout_type = ''header_body'',
        title = Some ''Go Live'', subtitle = Some ''today'', body_text = Some ''At noon'',
        quote = None, background_color = ''#000000'', font_color = ''#ffffff'',
        accent_color = ''#ff0000''\<rparr>
      2000 2000 \<lparr>headingFont = ''Inter'', bodyFont = ''Inter'', accentFont = ''Merriweather'',
        googleFonts = []\<rparr>)
     = map ((*) 2) (nums (renderBoldCallout roundTo53
      \<lparr>carousel_id = ''c1'', slide_number = 1, layout_type = ''header_body'',
        title = Some ''Go Live'', subtitle = Some ''today'', body_text = Some ''At noon'',
        quote = None, background_color = ''#000000'', font_color = ''#ffffff'',
        accent_color = ''#ff0000''\<rparr>
      1000 1000 \<lparr>headingFont = ''Inter'', bodyFont = ''Inter'', accentFont = ''Merriweather'',
        googleFonts = []\<rparr>))
   \<and> doubledAt
     [True, True, True, True, True, True, False, True, True, False, True, False,
      True, False, True, False, True]
     (nums (renderDictionaryEntry roundTo53
      \<lparr>carousel_id = ''c1'', slide_number = 1, layout_type = ''header_body'',
        title = Some ''Go Live'', subtitle = Some ''today'', body_text = Some ''At noon'',
        quote = None, background_color = ''#000000'', font_color = ''#ffffff'',
        accent_color = ''#ff0000''\<rparr>
      2000 2000 \<lparr>headingFont = ''Inter'', bodyFont = ''Inter'', accentFont = ''Merriweather'',
        googleFonts = []\<rparr>))
     (nums (renderDictionaryEntry roundTo53
      \<lparr>carousel_id = ''c1'', slide_number = 1, layout_type = ''header_body'',
        title = Some ''Go Live'', subtitle = Some ''today'', body_text = Some ''At noon'',
        quote = None, background_color = ''#000000'', font_color = ''#ffffff'',
        accent_color = ''#ff0000''\<rparr>
      1000 1000 \<lparr>headingFont = ''Inter'', bodyFont = ''Inter'', accentFont = ''Merriweather'',
        googleFonts = []\<rparr>))
   \<and> doubledAt
     [True, True, True, True, True, False, True, True, True, True, True, True]
     (nums (renderHeaderBody roundTo53
      \<lparr>carousel_id = ''c1'', slide_number = 1, layout_type = ''header_body'',
        title = Some ''Go Live'', subtitle = Some ''today'', body_text = Some ''At noon'',
        quote = None, background_color = ''#000000'', font_color = ''#ffffff'',
        accent_color = ''#ff0000''\<rparr>
      2000 2000 \<lparr>headingFont = ''Inter'', bodyFont = ''Inter'', accentFont = ''Merriweather'',
        googleFonts = []\<rparr>))
     (nums (renderHeaderBody roundTo53
      \<lparr>carousel_id = ''c1'', slide_number = 1, layout_type = ''header_body'',
        title = Some ''Go Live'', subtitle = Some ''today'', body_text = Some ''At noon'',
        quote = None, background_color = ''#000000'', font_color = ''#ffffff'',
        accent_color = ''#ff0000''\<rparr>
      1000 1000 \<lparr>headingFont = ''Inter'', bodyFont = ''Inter'', accentFont = ''Merriweather'',
        googleFonts = []\<rparr>))
   \<and> doubledAt
     [True, True, True, True, True, False, True, False, True, True, True, True, True]
     (nums (renderQuoteHighlight roundTo53
      \<lparr>carousel_id = ''c1'', slide_number = 1, layout_type = ''header_body'',
        title = Some ''Go Live'', subtitle = Some ''today'', body_text = Some ''At noon'',
        quote = None, background_color = ''#000000'', font_color = ''#ffffff'',
        accent_color = ''#ff0000''\<rparr>
      2000 2000 \<lparr>headingFont = ''Inter'', bodyFont = ''Inter'', accentFont = ''Merriweather'',
        googleFonts = []\<rparr>))
     (nums (renderQuoteHighlight roundTo53
      \<lparr>carousel_id = ''c1'', slide_number = 1, layout_type = ''header_body'',
        title = Some ''Go Live'', subtitle = Some ''today'', body_text = Some ''At noon'',
        quote = None, background_color = ''#000000'', font_color = ''#ffffff'',
        accent_color = ''#ff0000''\<rparr>
      1000 1000 \<lparr>headingFont = ''Inter'', bodyFont = ''Inter'', accentFont = ''Merriweather'',
        googleFonts = []\<rparr>))
   \<and> doubledAt
     [True, True, True, True, True, False, True, True, False, True, False, True, True]
     (nums (renderMinimalistFocus roundTo53
      \<lparr>carousel_id = ''c1'', slide_number = 1, layout_type = ''header_body'',
        title = Some ''Go Live'', subtitle = Some ''today'', body_text = Some ''At noon'',
        quote = None, background_color = ''#000000'', font_color = ''#ffffff'',
        accent_color = ''#ff0000''\<rparr>
      2000 2000 \<lparr>headingFont = ''Inter'', bodyFont = ''Inter'', accentFont = ''Merriweather'',
        googleFonts = []\<rparr>))
     (nums (renderMinimalistFocus roundTo53
      \<lparr>carousel_id = ''c1'', slide_number = 1, layout_type = ''header_body'',
        title = Some ''Go Live'', subtitle = Some ''today'', body_text = Some ''At noon'',
        quote = None, background_color = ''#000000'', font_color = ''#ffffff'',
        accent_color = ''#ff0000''\<rparr>
      1000 1000 \<lparr>headingFont = ''Inter'', bodyFont = ''Inter'', accentFont = ''Merriweather'',
        googleFonts = []\<rparr>))"
  using builtin_layouts_scale [of roundTo53
      "\<lparr>carousel_id = ''c1'', slide_number = 1, layout_type = ''header_body'',
        title = Some ''Go Live'', subtitle = Some ''today'', body_text = Some ''At noon'',
        quote = None, background_color = ''#000000'', font_color = ''#ffffff'',
        accent_color = ''#ff0000''\<rparr>"
      1000 1000
      "\<lparr>headingFont = ''Inter'', bodyFont = ''Inter'', accentFont = ''Merriweather'',
        googleFonts = []\<rparr>", OF roundTo53_double]
  by (simp add: orElse_def)

text \<open>
  C4 as the specification words it, with every quantity doubled in every built-in
  layout, fails for the header/body layout: at 1000 by 1000 the accent bar starts at
  x = 450, at 2000 by 2000 at x = 950, not 900. These numbers are integers, which the
  rounding of doubles leaves as they are.
\<close>

theorem header_body_doubling_counterexample:
  "nums (renderHeaderBody roundTo53
      \<lparr>carousel_id = ''c1'', slide_number = 1, layout_type = ''header_body'',
        title = Some ''Go Live'', subtitle = None, body_text = None, quote = None,
        background_color = ''#000000'', font_color = ''#ffffff'',
        accent_color = ''#ff0000''\<rparr>
      1000 1000 \<lparr>headingFont = ''Inter'', bodyFont = ''Inter'', accentFont = ''Merriweather'',
        googleFonts = []\<rparr>) ! 5 = 450
   \<and> nums (renderHeaderBody roundTo53
      \<lparr>carousel_id = ''c1'', slide_number = 1, layout_type = ''header_body'',
        title = Some ''Go Live'', subtitle = None, body_text = None, quote = None,
        background_color = ''#000000'', font_color = ''#ffffff'',
        accent_color = ''#ff0000''\<rparr>
      2000 2000 \<lparr>headingFont = ''Inter'', bodyFont = ''Inter'', accentFont = ''Merriweather'',
        googleFonts = []\<rparr>) ! 5 = 950
   \<and> nums (renderHeaderBody roundTo53
      \<lparr>carousel_id = ''c1'', slide_number = 1, layout_type = ''header_body'',
        title = Some ''Go Live'', subtitle = None, body_text = None, quote = None,
        background_color = ''#000000'', font_color = ''#ffffff'',
        accent_color = ''#ff0000''\<rparr>
      2000 2000 \<lparr>headingFont = ''Inter'', bodyFont = ''Inter'', accentFont = ''Merriweather'',
        googleFonts = []\<rparr>)
     \<noteq> map ((*) 2) (nums (renderHeaderBody roundTo53
      \<lparr>carousel_id = ''c1'', slide_number = 1, layout_type = ''header_body'',
        title = Some ''Go Live'', subtitle = None, body_text = None, quote = None,
        background_color = ''#000000'', font_color = ''#ffffff'',
        accent_color = ''#ff0000''\<rparr>
      1000 1000 \<lparr>headingFont = ''Inter'', bodyFont = ''Inter'', accentFont = ''Merriweather'',
        googleFonts = []\<rparr>))"
proof -
  let ?slide = "\<lparr>carousel_id = ''c1'', slide_number = 1, layout_type = ''header_body'',
        title = Some ''Go Live'', subtitle = None, body_text = None, quote = None,
        background_color = ''#000000'', font_color = ''#ffffff'',
        accent_color = ''#ff0000''\<rparr>"
  let ?fonts = "\<lparr>headingFont = ''Inter'', bodyFont = ''Inter'', accentFont = ''Merriweather'',
        googleFonts = []\<rparr>"
  have r: "roundTo53 450 = 450" "roundTo53 500 = 500" "roundTo53 950 = 950"
    "roundTo53 1000 = 1000"
    using roundTo53_of_int [of 450] roundTo53_of_int [of 500] roundTo53_of_int [of 950]
      roundTo53_of_int [of 1000]
    by simp_all
  have small: "nums (renderHeaderBody roundTo53 ?slide 1000 1000 ?fonts) ! 5 = 450"
    by (simp add: renderHeaderBody_def Let_def fsub_def fdiv_def r)
  have big: "nums (renderHeaderBody roundTo53 ?slide 2000 2000 ?fonts) ! 5 = 950"
    by (simp add: renderHeaderBody_def Let_def fsub_def fdiv_def r)
  have len: "length (nums (renderHeaderBody roundTo53 ?slide 1000 1000 ?fonts)) = 7"
    by (simp add: renderHeaderBody_def Let_def)
  have "nums (renderHeaderBody roundTo53 ?slide 2000 2000 ?fonts)
     \<noteq> map ((*) 2) (nums (renderHeaderBody roundTo53 ?slide 1000 1000 ?fonts))"
  proof
    assume "nums (renderHeaderBody roundTo53 ?slide 2000 2000 ?fonts)
      = map ((*) 2) (nums (renderHeaderBody roundTo53 ?slide 1000 1000 ?fonts))"
    then have "nums (renderHeaderBody roundTo53 ?slide 2000 2000 ?fonts) ! 5
      = map ((*) 2) (nums (renderHeaderBody roundTo53 ?slide 1000 1000 ?fonts)) ! 5"
      by (rule arg_cong)
    also have "\<dots> = 2 * nums (renderHeaderBody roundTo53 ?slide 1000 1000 ?fonts) ! 5"
      using len by simp
    finally have "(950::real) = 2 * 450" by (simp only: small big)
    then show False by simp
  qed
  with small big show ?thesis by (intro conjI)
qed

section \<open>Optional fields of the built-in layouts\<close>

lemma lits_append: "lits (ps @ qs) = lits ps @ lits qs"
  by (induction ps rule: lits.induct) simp_all

lemma mentions_append: "mentions m (ps @ qs) = (mentions m ps \<or> mentions m qs)"
  by (simp add: mentions_def lits_append)

lemma mentions_Nil: "mentions m [] = False"
  by (simp add: mentions_def)

lemma mentions_Cons:
  "mentions m (Lit s # ps) = (sublist m s \<or> mentions m ps)"
  "mentions m (Str t # ps) = mentions m ps"
  "mentions m (Num x # ps) = mentions m ps"
  by (simp_all add: mentions_def)

lemmas mentions_simps = mentions_append mentions_Nil mentions_Cons sublist_code(3)

lemma dictionary_title: \<open>mentions ''id="title-text"'' (renderDictionaryEntry fl slide width height fonts)
    = truthy (title slide)\<close>
  by (simp add: renderDictionaryEntry_def Let_def mentions_simps)

lemma dictionary_subtitle: \<open>mentions ''id="subtitle-text"'' (renderDictionaryEntry fl slide width height fonts)
    = truthy (subtitle slide)\<close>
  by (simp add: renderDictionaryEntry_def Let_def mentions_simps)

lemma dictionary_body: \<open>mentions ''<foreignObject'' (renderDictionaryEntry fl slide width height fonts)
    = truthy (body_text slide)\<close>
  by (simp add: renderDictionaryEntry_def Let_def mentions_simps)

lemma header_body_title: \<open>mentions ''id="title-text"'' (renderHeaderBody fl slide width height fonts)
    = truthy (title slide)\<close>
  by (simp add: renderHeaderBody_def Let_def mentions_simps)

lemma header_body_body: \<open>mentions ''<foreignObject'' (renderHeaderBody fl slide width height fonts)
    = truthy (body_text slide)\<close>
  by (simp add: renderHeaderBody_def Let_def mentions_simps)

lemma quote_highlight_quote: \<open>mentions ''<foreignObject'' (renderQuoteHighlight fl slide width height fonts)
    = truthy (orElse (quote slide) (body_text slide))\<close>
  by (simp add: renderQuoteHighlight_def Let_def mentions_simps)

lemma quote_highlight_title: \<open>mentions ''id="attribution"'' (renderQuoteHighlight fl slide width height fonts)
    = truthy (title slide)\<close>
  by (simp add: renderQuoteHighlight_def Let_def mentions_simps)

lemma minimalist_title: \<open>mentions ''id="title-text"'' (renderMinimalistFocus fl slide width height fonts)
    = truthy (title slide)\<close>
  by (simp add: renderMinimalistFocus_def Let_def mentions_simps)

lemma minimalist_body: \<open>mentions ''<foreignObject'' (renderMinimalistFocus fl slide width height fonts)
    = truthy (body_text slide)\<close>
  by (simp add: renderMinimalistFocus_def Let_def mentions_simps)

text \<open>
  The dictionary entry, header/body, quote highlight and minimalist focus layouts
  write the element of a text field exactly when the field is present and not empty,
  whatever the other fields are (in the quote highlight the quoted text is the quote or
  else the body text). The renderings are total functions: no field, absent or empty,
  makes one of them fail.
\<close>

lemma other_layouts_omit:
  \<open>mentions ''id="title-text"'' (renderDictionaryEntry fl slide width height fonts)
     = truthy (title slide)
   \<and> mentions ''id="subtitle-text"'' (renderDictionaryEntry fl slide width height fonts)
     = truthy (subtitle slide)
   \<and> mentions ''<foreignObject'' (renderDictionaryEntry fl slide width height fonts)
     = truthy (body_text slide)
   \<and> mentions ''id="title-text"'' (renderHeaderBody fl slide width height fonts)
     = truthy (title slide)
   \<and> mentions ''<foreignObject'' (renderHeaderBody fl slide width height fonts)
     = truthy (body_text slide)
   \<and> mentions ''<foreignObject'' (renderQuoteHighlight fl slide width height fonts)
     = truthy (orElse (quote slide) (body_text slide))
   \<and> mentions ''id="attribution"'' (renderQuoteHighlight fl slide width height fonts)
     = truthy (title slide)
   \<and> mentions ''id="title-text"'' (renderMinimalistFocus fl slide width height fonts)
     = truthy (title slide)
   \<and> mentions ''<foreignObject'' (renderMinimalistFocus fl slide width height fonts)
     = truthy (body_text slide)\<close>
  by (intro conjI)
    (rule dictionary_title dictionary_subtitle dictionary_body header_body_title
      header_body_body quote_highlight_quote quote_highlight_title minimalist_title
      minimalist_body)+

text \<open>
  The bold callout writes one text element for each line of the body text or else the
  title, and the lines of the empty string are the one empty line.
\<close>

lemma renderBoldCallout_elements:
  \<open>length (filter (sublist ''<text id="body-text-'')
      (lits (renderBoldCallout fl slide width height fonts)))
     = length (split CHR ''\<newline>'' (orEmpty (orElse (body_text slide) (title slide))))\<close>
proof -
  have \<open>length (filter (sublist ''<text id="body-text-'')
      (lits (concat (map (\<lambda>(i, line). f i line) (enumerate n ls))))) = length ls\<close>
    if \<open>\<And>i line. length (filter (sublist ''<text id="body-text-'') (lits (f i line))) = 1\<close>
    for f :: "nat \<Rightarrow> string \<Rightarrow> piece list" and n ls
    using that by (induction ls arbitrary: n) (simp_all add: lits_append)
  then show ?thesis
    by (simp add: renderBoldCallout_def Let_def lits_append sublist_code(3))
qed

text \<open>
  C9 at an input where the code departs from it. A bold callout slide with no text
  field at all has no text to show, and the layout still writes a text element for it:
  the element \<^verbatim>\<open>body-text-0\<close>, whose content, the last string interpolated, is empty.
  The literal chunks and the interpolated strings of the rendering are these, at every
  size and with every rounding.
\<close>

theorem renderBoldCallout_empty_element:
  \<open>lits (renderBoldCallout fl
      \<lparr>carousel_id = ''c1'', slide_number = 1, layout_type = ''bold_callout'',
        title = None, subtitle = None, body_text = None, quote = None,
        background_color = ''#000000'', font_color = ''#ffffff'',
        accent_color = ''#ff0000''\<rparr>
      width height \<lparr>headingFont = ''Inter'', bodyFont = ''Inter'', accentFont = ''Merriweather'',
        googleFonts = []\<rparr>)
   = [''\<newline>    <rect id="background" width="'', ''" height="'', ''" fill="'',
      ''"/>\<newline>\<newline>    <g id="content">\<newline>      '',
      ''\<newline>        <text id="body-text-'',
      ''"\<newline>              x="'', ''" y="'',
      ''"\<newline>              font-family="'',
      '', sans-serif"\<newline>              font-size="'',
      ''"\<newline>              font-weight="bold"\<newline>              text-anchor="middle"\<newline>              fill="'',
      ''">\<newline>          '',
      ''\<newline>        </text>\<newline>      '',
      ''\<newline>    </g>'']
   \<and> strs (renderBoldCallout fl
      \<lparr>carousel_id = ''c1'', slide_number = 1, layout_type = ''bold_callout'',
        title = None, subtitle = None, body_text = None, quote = None,
        background_color = ''#000000'', font_color = ''#ffffff'',
        accent_color = ''#ff0000''\<rparr>
      width height \<lparr>headingFont = ''Inter'', bodyFont = ''Inter'', accentFont = ''Merriweather'',
        googleFonts = []\<rparr>)
   = [''#000000'', ''0'', ''Inter'', ''#ffffff'', '''']\<close>
proof -
  have zero: "decimal 0 = ''0''" by code_simp
  show ?thesis
    by (simp add: renderBoldCallout_def Let_def orElse_def escapeXml_def replaceAll_def zero)
qed

section \<open>File names of exported slides\<close>






section \<open>The localStorage provider: reads\<close>

text \<open>
  C10. The four reading operations of the localStorage provider never reject. Each
  gives its default, the empty list or the default font settings, when the storage
  cannot be read, when the key holds nothing or the empty text, and when the text under
  the key does not parse; each gives the stored value when there is one.
\<close>

theorem reads_never_reject:
  "(\<exists>v. getAllProjects st = Inr v) \<and> (\<exists>v. getAllCustomLayouts st = Inr v)
   \<and> (\<exists>v. getAllCustomFonts st = Inr v) \<and> (\<exists>v. getFontSettings st = Inr v)
   \<and> (\<not> readable st \<or> projects_item st \<in> set [Missing, Blank, Garbled]
        \<longrightarrow> getAllProjects st = Inr [])
   \<and> (\<not> readable st \<or> layouts_item st \<in> set [Missing, Blank, Garbled]
        \<longrightarrow> getAllCustomLayouts st = Inr [])
   \<and> (\<not> readable st \<or> fonts_item st \<in> set [Missing, Blank, Garbled]
        \<longrightarrow> getAllCustomFonts st = Inr [])
   \<and> (\<not> readable st \<or> settings_item st \<in> set [Missing, Blank, Garbled]
        \<longrightarrow> getFontSettings st = Inr DEFAULT_FONT_SETTINGS_VALUE)
   \<and> (readable st \<and> projects_item st = Value ps \<longrightarrow> getAllProjects st = Inr ps)
   \<and> (readable st \<and> layouts_item st = Value ls \<longrightarrow> getAllCustomLayouts st = Inr ls)
   \<and> (readable st \<and> fonts_item st = Value fs \<longrightarrow> getAllCustomFonts st = Inr fs)
   \<and> (readable st \<and> settings_item st = Value fset \<longrightarrow> getFontSettings st = Inr fset)"
proof -
  have p: "(\<exists>v. getAllProjects st = Inr v)
      \<and> (\<not> readable st \<or> projects_item st \<in> set [Missing, Blank, Garbled]
           \<longrightarrow> getAllProjects st = Inr [])
      \<and> (readable st \<and> projects_item st = Value ps \<longrightarrow> getAllProjects st = Inr ps)"
    by (cases "projects_item st")
      (auto simp add: getAllProjects_def getItem_def tryCatch_def andThen_def)
  have l: "(\<exists>v. getAllCustomLayouts st = Inr v)
      \<and> (\<not> readable st \<or> layouts_item st \<in> set [Missing, Blank, Garbled]
           \<longrightarrow> getAllCustomLayouts st = Inr [])
      \<and> (readable st \<and> layouts_item st = Value ls \<longrightarrow> getAllCustomLayouts st = Inr ls)"
    by (cases "layouts_item st")
      (auto simp add: getAllCustomLayouts_def getItem_def tryCatch_def andThen_def)
  have f: "(\<exists>v. getAllCustomFonts st = Inr v)
      \<and> (\<not> readable st \<or> fonts_item st \<in> set [Missing, Blank, Garbled]
           \<longrightarrow> getAllCustomFonts st = Inr [])
      \<and> (readable st \<and> fonts_item st = Value fs \<longrightarrow> getAllCustomFonts st = Inr fs)"
    by (cases "fonts_item st")
      (auto simp add: getAllCustomFonts_def getItem_def tryCatch_def andThen_def)
  have s: "(\<exists>v. getFontSettings st = Inr v)
      \<and> (\<not> readable st \<or> settings_item st \<in> set [Missing, Blank, Garbled]
           \<longrightarrow> getFontSettings st = Inr DEFAULT_FONT_SETTINGS_VALUE)
      \<and> (readable st \<and> settings_item st = Value fset \<longrightarrow> getFontSettings st = Inr fset)"
    by (cases "settings_item st")
      (auto simp add: getFontSettings_def getItem_def tryCatch_def andThen_def)
  from p l f s show ?thesis by blast
qed

theorem reads_never_reject_witness:
  "getAllProjects \<lparr>readable = True, projects_item = Garbled, layouts_item = Missing,
       fonts_item = Blank, settings_item = Garbled\<rparr> = Inr []
   \<and> getAllCustomLayouts \<lparr>readable = True, projects_item = Garbled, layouts_item = Missing,
       fonts_item = Blank, settings_item = Garbled\<rparr> = Inr []
   \<and> getAllCustomFonts \<lparr>readable = True, projects_item = Garbled, layouts_item = Missing,
       fonts_item = Blank, settings_item = Garbled\<rparr> = Inr []
   \<and> getFontSettings \<lparr>readable = True, projects_item = Garbled, layouts_item = Missing,
       fonts_item = Blank, settings_item = Garbled\<rparr> = Inr DEFAULT_FONT_SETTINGS_VALUE"
  using reads_never_reject [of "\<lparr>readable = True, projects_item = Garbled,
       layouts_item = Missing, fonts_item = Blank, settings_item = Garbled\<rparr>"]
  by simp

section \<open>The localStorage provider: the quota check of saveProject\<close>

lemma digit_table:
  "digit 0 = CHR ''0''" "digit 1 = CHR ''1''" "digit 2 = CHR ''2''" "digit 3 = CHR ''3''"
  "digit 4 = CHR ''4''" "digit 5 = CHR ''5''" "digit 6 = CHR ''6''" "digit 7 = CHR ''7''"
  "digit 8 = CHR ''8''" "digit 9 = CHR ''9''" "digit (Suc 0) = CHR ''1''"
  by code_simp+

lemma findIndex_Some: "findIndex p xs = Some i \<Longrightarrow> i < length xs \<and> p (xs ! i)"
  by (induction xs arbitrary: i) (auto split: if_splits)

lemma upsert_keeps:
  "x \<in> set (upsert (findIndex p xs) x xs)
   \<and> list_all (\<lambda>y. p y \<or> y \<in> set (upsert (findIndex p xs) x xs)) xs
   \<and> length xs \<le> length (upsert (findIndex p xs) x xs)"
proof (cases "findIndex p xs")
  case None
  then show ?thesis by (simp add: upsert_def list_all_iff)
next
  case (Some i)
  then have i: "i < length xs" "p (xs ! i)" using findIndex_Some by fastforce+
  have "y \<in> set xs \<Longrightarrow> \<not> p y \<Longrightarrow> y \<in> set (xs[i := x])" for y
    using i by (metis in_set_conv_nth length_list_update nth_list_update_neq)
  with Some i show ?thesis
    by (auto simp add: upsert_def list_all_iff set_update_memI)
qed

text \<open>
  C2. \<open>saveProject\<close> reads the stored projects, puts the project in (in place of the one
  with its id, or at the end), estimates the size of that whole rewritten collection
  and, when the size exceeds the quota's total less its used part, rejects with an
  error whose message carries the estimated size, the used size, the total size and
  the available size, each printed by \<open>formatBytes\<close>; the storage is left as it was.
  The rewritten collection holds the saved project and every stored project with
  another id.
\<close>

theorem saveProject_quota:
  assumes "getAllProjects st = Inr stored"
      and "rewritten = upsert (findIndex (\<lambda>p. project_id p = project_id proj) stored)
                         (proj\<lparr>modifiedAt := nowIso\<rparr>) stored"
      and "q = getStorageQuota utils st"
      and "total q - used q < estimateProjects utils rewritten"
  shows "saveProject utils nowIso st proj
           = (Inl (Error (projectQuotaMessage utils (estimateProjects utils rewritten) q)), st)
         \<and> (\<exists>a b c d e. projectQuotaMessage utils (estimateProjects utils rewritten) q
               = a @ formatBytes utils (estimateProjects utils rewritten)
                 @ b @ formatBytes utils (used q) @ c @ formatBytes utils (total q)
                 @ d @ formatBytes utils (available q) @ e)
         \<and> proj\<lparr>modifiedAt := nowIso\<rparr> \<in> set rewritten
         \<and> list_all (\<lambda>p. project_id p = project_id proj \<or> p \<in> set rewritten) stored"
proof -
  have rejected: "saveProject utils nowIso st proj
           = (Inl (Error (projectQuotaMessage utils (estimateProjects utils rewritten) q)), st)"
    using assms by (simp add: saveProject_def Let_def hasEnoughSpace_def)
  have carried: "\<exists>a b c d e. projectQuotaMessage utils (estimateProjects utils rewritten) q
               = a @ formatBytes utils (estimateProjects utils rewritten)
                 @ b @ formatBytes utils (used q) @ c @ formatBytes utils (total q)
                 @ d @ formatBytes utils (available q) @ e"
    unfolding projectQuotaMessage_def
    by (rule exI [where x = "''Cannot save project: localStorage quota would be exceeded.\<newline>\<newline>''
                               @ ''Project data size: ''"],
        rule exI [where x = "''\<newline>'' @ ''Storage used: ''"],
        rule exI [where x = "'' / ''"],
        rule exI [where x = "''\<newline>'' @ ''Available: ''"],
        rule exI [where x = "''\<newline>\<newline>''
                               @ ''Try removing some old projects or custom fonts to free up space.''"])
      (simp only: append_assoc)
  have whole: "proj\<lparr>modifiedAt := nowIso\<rparr> \<in> set rewritten
         \<and> list_all (\<lambda>p. project_id p = project_id proj \<or> p \<in> set rewritten) stored"
    using upsert_keeps [of "proj\<lparr>modifiedAt := nowIso\<rparr>"
                           "\<lambda>p. project_id p = project_id proj" stored]
    by (simp add: assms(2))
  from rejected carried whole show ?thesis by blast
qed

theorem saveProject_quota_witness:
  "saveProject
     \<lparr>estimateProjects = (\<lambda>ps. 1000 * int (length ps)),
      estimateFonts = (\<lambda>fs. 1000 * int (length fs)),
      formatBytes = (\<lambda>n. decimal (nat n) @ '' B''),
      getStorageQuota = (\<lambda>st. \<lparr>used = 4500, total = 5000, available = 500\<rparr>),
      safeSetProjects = (\<lambda>ps st. (Inr (), st\<lparr>projects_item := Value ps\<rparr>)),
      safeSetFonts = (\<lambda>fs st. (Inr (), st\<lparr>fonts_item := Value fs\<rparr>))\<rparr>
     ''2026-01-02T00:00:00.000Z''
     \<lparr>readable = True,
      projects_item = Value [\<lparr>project_id = ''project-1'', project_name = ''Demo'', carousels = [],
         createdAt = ''2026-01-01T00:00:00.000Z'', modifiedAt = ''2026-01-01T00:00:00.000Z'',
         description = None\<rparr>],
      layouts_item = Missing, fonts_item = Missing, settings_item = Missing\<rparr>
     \<lparr>project_id = ''project-2'', project_name = ''Launch'', carousels = [],
      createdAt = ''2026-01-02T00:00:00.000Z'', modifiedAt = ''2026-01-02T00:00:00.000Z'',
      description = None\<rparr>
   = (Inl (Error (''Cannot save project: localStorage quota would be exceeded.\<newline>\<newline>''
        @ ''Project data size: 2000 B\<newline>''
        @ ''Storage used: 4500 B / 5000 B\<newline>''
        @ ''Available: 500 B\<newline>\<newline>''
        @ ''Try removing some old projects or custom fonts to free up space.'')),
      \<lparr>readable = True,
       projects_item = Value [\<lparr>project_id = ''project-1'', project_name = ''Demo'', carousels = [],
         createdAt = ''2026-01-01T00:00:00.000Z'', modifiedAt = ''2026-01-01T00:00:00.000Z'',
         description = None\<rparr>],
       layouts_item = Missing, fonts_item = Missing, settings_item = Missing\<rparr>)"
proof -
  let ?utils = "\<lparr>estimateProjects = (\<lambda>ps. 1000 * int (length ps)),
      estimateFonts = (\<lambda>fs. 1000 * int (length fs)),
      formatBytes = (\<lambda>n. decimal (nat n) @ '' B''),
      getStorageQuota = (\<lambda>st. \<lparr>used = 4500, total = 5000, available = 500\<rparr>),
      safeSetProjects = (\<lambda>ps st. (Inr (), st\<lparr>projects_item := Value ps\<rparr>)),
      safeSetFonts = (\<lambda>fs st. (Inr (), st\<lparr>fonts_item := Value fs\<rparr>))\<rparr>"
  let ?p1 = "\<lparr>project_id = ''project-1'', project_name = ''Demo'', carousels = [],
         createdAt = ''2026-01-01T00:00:00.000Z'', modifiedAt = ''2026-01-01T00:00:00.000Z'',
         description = None\<rparr>"
  let ?p2 = "\<lparr>project_id = ''project-2'', project_name = ''Launch'', carousels = [],
      createdAt = ''2026-01-02T00:00:00.000Z'', modifiedAt = ''2026-01-02T00:00:00.000Z'',
      description = None\<rparr>"
  let ?st = "\<lparr>readable = True, projects_item = Value [?p1],
      layouts_item = Missing, fonts_item = Missing, settings_item = Missing\<rparr>"
  let ?q = "\<lparr>used = 4500, total = 5000, available = 500\<rparr>"
  have stored: "getAllProjects ?st = Inr [?p1]"
    by (simp add: getAllProjects_def getItem_def tryCatch_def andThen_def)
  have rewritten: "[?p1, ?p2] = upsert (findIndex (\<lambda>p. project_id p = project_id ?p2) [?p1])
                         (?p2\<lparr>modifiedAt := ''2026-01-02T00:00:00.000Z''\<rparr>) [?p1]"
    by (simp add: upsert_def)
  have q: "?q = getStorageQuota ?utils ?st" by simp
  have short: "total ?q - used ?q < estimateProjects ?utils [?p1, ?p2]" by simp
  have digits: "decimal 2000 = ''2000''" "decimal 4500 = ''4500''" "decimal 5000 = ''5000''"
    "decimal 500 = ''500''"
    by (simp_all add: decimal.simps digit_table)
  from saveProject_quota [OF stored rewritten q short] digits
  show ?thesis by (simp add: projectQuotaMessage_def)
qed

section \<open>The localStorage provider: font upload\<close>

text \<open>
  A name whose last dot-separated part, in lower case, is none of the four formats is
  rejected; the name \<^verbatim>\<open>MyFont-Bold.otf\<close> has the format \<^verbatim>\<open>otf\<close>, the font name
  \<^verbatim>\<open>MyFont-Bold\<close> and the family \<^verbatim>\<open>MyFont Bold\<close>.
\<close>

lemma uploadFont_rejects:
  "orEmpty (map_option toLowerCase (pop (split (CHR ''.'') (file_name f))))
     \<notin> set [''ttf'', ''otf'', ''woff'', ''woff2'']
   \<Longrightarrow> uploadFont utils nowMs nowIso st f (Some dataUrl)
       = (Inl (Error ''Unsupported font format. Please use TTF, OTF, WOFF, or WOFF2.''), st)"
  by (simp add: uploadFont_def Let_def)

lemma uploadFont_names:
  "map_option toLowerCase (pop (split (CHR ''.'') ''MyFont-Bold.otf'')) = Some ''otf''
   \<and> removeExtension ''MyFont-Bold.otf'' = ''MyFont-Bold''
   \<and> replaceClass (\<lambda>c. c = CHR ''-'' \<or> c = CHR ''_'') '' '' ''MyFont-Bold'' = ''MyFont Bold''"
  by code_simp

text \<open>
  C7 at an input where the code departs from it. A file named \<^verbatim>\<open>ttf\<close> has no
  extension, yet \<^verbatim>\<open>name.split('.').pop()\<close> is then the whole name, which passes the
  check: the upload succeeds and stores a font of format \<^verbatim>\<open>ttf\<close> whose name and
  family are \<^verbatim>\<open>ttf\<close>. (The removal of the extension for the font name, which asks for
  a dot, finds none in the same name.)
\<close>

theorem uploadFont_accepts_bare_name:
  "uploadFont
     \<lparr>estimateProjects = (\<lambda>ps. 1000 * int (length ps)),
      estimateFonts = (\<lambda>fs. 1000 * int (length fs)),
      formatBytes = (\<lambda>n. decimal (nat n) @ '' B''),
      getStorageQuota = (\<lambda>st. \<lparr>used = 0, total = 5000, available = 5000\<rparr>),
      safeSetProjects = (\<lambda>ps st. (Inr (), st\<lparr>projects_item := Value ps\<rparr>)),
      safeSetFonts = (\<lambda>fs st. (Inr (), st\<lparr>fonts_item := Value fs\<rparr>))\<rparr>
     1700000000000 ''2023-11-14T22:13:20.000Z''
     \<lparr>readable = True, projects_item = Missing, layouts_item = Missing, fonts_item = Missing,
      settings_item = Missing\<rparr>
     \<lparr>file_name = ''ttf'', file_size = 2048\<rparr>
     (Some ''data:font/ttf;base64,AAEAAAA='')
   = (Inr \<lparr>font_id = ''font-1700000000000'', font_name = ''ttf'', family = ''ttf'',
           format = ''ttf'', base64Data = ''data:font/ttf;base64,AAEAAAA='',
           uploadedAt = ''2023-11-14T22:13:20.000Z''\<rparr>,
      \<lparr>readable = True, projects_item = Missing, layouts_item = Missing,
       fonts_item = Value [\<lparr>font_id = ''font-1700000000000'', font_name = ''ttf'', family = ''ttf'',
           format = ''ttf'', base64Data = ''data:font/ttf;base64,AAEAAAA='',
           uploadedAt = ''2023-11-14T22:13:20.000Z''\<rparr>],
       settings_item = Missing\<rparr>)"
proof -
  have name: "toLowerCase ''ttf'' = ''ttf''"
    "removeExtension ''ttf'' = ''ttf''"
    "replaceClass (\<lambda>c. c = CHR ''-'' \<or> c = CHR ''_'') '' '' ''ttf'' = ''ttf''"
    by code_simp+
  have stamp: "decimal 1700000000000 = ''1700000000000''"
    by (simp add: decimal.simps digit_table)
  show ?thesis
    by (simp add: uploadFont_def Let_def name stamp saveCustomFont_def getAllCustomFonts_def
        getItem_def tryCatch_def andThen_def upsert_def hasEnoughSpace_def)
qed

section \<open>Properties of the list of recent projects\<close>

lemma recentAdd_entries:
  "f \<noteq> Damaged \<Longrightarrow>
   recentAdd True t f p n
     = (True, Recent (take 10 (\<lparr>recent_path = p, recent_name = n, recent_timestamp = t\<rparr>
                                # filter (\<lambda>r. recent_path r \<noteq> p) (entries f))))"
  by (cases f) (simp_all add: recentAdd_def Let_def)

lemma recentRun_snoc:
  "recentRun (adds @ [(p, n, t)]) f = snd (recentAdd True t (recentRun adds f) p n)"
  by (induction adds f rule: recentRun.induct) simp_all

lemma recentRun_not_Damaged: "f \<noteq> Damaged \<Longrightarrow> recentRun adds f \<noteq> Damaged"
proof (induction adds arbitrary: f)
  case Nil
  then show ?case by simp
next
  case (Cons a adds)
  obtain p n t where a: "a = (p, n, t)" by (cases a) auto
  from Cons.prems have "snd (recentAdd True t f p n) \<noteq> Damaged"
    by (simp add: recentAdd_entries)
  with Cons.IH a show ?case by simp
qed

lemma remdups_snoc: "remdups (xs @ [p]) = filter (\<lambda>x. x \<noteq> p) (remdups xs) @ [p]"
  by (induction xs) auto

lemma take_filter_take:
  "distinct L \<Longrightarrow> take k (filter (\<lambda>x. x \<noteq> p) (take (Suc k) L)) = take k (filter (\<lambda>x. x \<noteq> p) L)"
proof (induction L arbitrary: k)
  case Nil
  then show ?case by simp
next
  case (Cons x xs)
  show ?case
  proof (cases "x = p")
    case True
    with Cons.prems have "p \<notin> set xs" by simp
    then have "filter (\<lambda>x. x \<noteq> p) ys = ys" if "set ys \<subseteq> set xs" for ys
      using that by (induction ys) auto
    then have "filter (\<lambda>x. x \<noteq> p) (take k xs) = take k xs" "filter (\<lambda>x. x \<noteq> p) xs = xs"
      by (simp_all add: set_take_subset)
    with True show ?thesis by simp
  next
    case False
    with Cons show ?thesis by (cases k) simp_all
  qed
qed

lemma recentRun_paths:
  "map recent_path (entries (recentRun adds NoFile)) = take 10 (rev (remdups (map fst adds)))"
proof (induction adds rule: rev_induct)
  case Nil
  then show ?case by simp
next
  case (snoc a adds)
  obtain p n t where a: "a = (p, n, t)" by (cases a) auto
  let ?E = "entries (recentRun adds NoFile)"
  let ?L = "rev (remdups (map fst adds))"
  have nd: "recentRun adds NoFile \<noteq> Damaged" by (simp add: recentRun_not_Damaged)
  have "map recent_path (entries (recentRun (adds @ [a]) NoFile))
        = take 10 (p # filter (\<lambda>x. x \<noteq> p) (map recent_path ?E))"
    by (simp add: a recentRun_snoc recentAdd_entries [OF nd] take_map filter_map comp_def del: take_Suc_Cons)
  also have "\<dots> = p # take 9 (filter (\<lambda>x. x \<noteq> p) (take (Suc 9) ?L))"
    by (simp add: snoc.IH)
  also have "\<dots> = p # take 9 (filter (\<lambda>x. x \<noteq> p) ?L)"
    by (simp only: take_filter_take [of ?L 9 p] distinct_rev distinct_remdups)
  also have "\<dots> = take 10 (rev (remdups (map fst (adds @ [a]))))"
    by (simp add: a remdups_snoc rev_filter)
  finally show ?case .
qed


lemma distinct_filter_paths:
  "distinct (map recent_path stored) \<Longrightarrow>
   distinct (map recent_path (filter (\<lambda>r. recent_path r \<noteq> p) stored))"
  by (induction stored) auto

lemma length_filter_one:
  "distinct (map recent_path stored) \<Longrightarrow> p \<in> set (map recent_path stored) \<Longrightarrow>
   Suc (length (filter (\<lambda>r. recent_path r \<noteq> p) stored)) = length stored"
proof (induction stored)
  case Nil
  then show ?case by simp
next
  case (Cons e stored)
  show ?case
  proof (cases "recent_path e = p")
    case True
    with Cons.prems have "p \<notin> set (map recent_path stored)" by simp
    then have "filter (\<lambda>r. recent_path r \<noteq> p) stored = stored"
      by (induction stored) auto
    with True show ?thesis by simp
  next
    case False
    with Cons show ?thesis by auto
  qed
qed

text \<open>
  C6. Starting without a file, after any run of additions the list holds the paths added
  in the order of their latest addition, the latest first, each once, cut to the first
  ten: hence at most ten entries and no two with the same path. After eleven distinct
  paths it holds exactly ten, the ten added last. Adding a path that the list holds
  puts its new entry in front and removes the old one, the list keeping its length.
  One successful addition to any file leaves at most ten entries, the new one first; a
  failed one leaves the file as it was.
\<close>

theorem recent_list_bounded:
  "map recent_path (entries (recentRun adds NoFile)) = take 10 (rev (remdups (map fst adds)))
   \<and> length (entries (recentRun adds NoFile)) \<le> 10
   \<and> distinct (map recent_path (entries (recentRun adds NoFile)))
   \<and> (distinct (map fst adds) \<and> length adds = 11 \<longrightarrow>
        map recent_path (entries (recentRun adds NoFile)) = take 10 (rev (map fst adds))
        \<and> length (entries (recentRun adds NoFile)) = 10)
   \<and> (distinct (map recent_path stored) \<and> length stored \<le> 10
        \<and> p \<in> set (map recent_path stored) \<longrightarrow>
        recentAdd True t (Recent stored) p n
          = (True, Recent (\<lparr>recent_path = p, recent_name = n, recent_timestamp = t\<rparr>
                            # filter (\<lambda>r. recent_path r \<noteq> p) stored))
        \<and> length (\<lparr>recent_path = p, recent_name = n, recent_timestamp = t\<rparr>
                    # filter (\<lambda>r. recent_path r \<noteq> p) stored) = length stored
        \<and> distinct (map recent_path (\<lparr>recent_path = p, recent_name = n, recent_timestamp = t\<rparr>
                    # filter (\<lambda>r. recent_path r \<noteq> p) stored)))
   \<and> (recentAdd writable t f p n = (True, f') \<longrightarrow>
        length (entries f') \<le> 10
        \<and> take 1 (entries f') = [\<lparr>recent_path = p, recent_name = n, recent_timestamp = t\<rparr>])
   \<and> (recentAdd writable t f p n = (False, f') \<longrightarrow> f' = f)"
proof -
  let ?r = "entries (recentRun adds NoFile)"
  have paths: "map recent_path ?r = take 10 (rev (remdups (map fst adds)))"
    by (rule recentRun_paths)
  have bound: "length ?r \<le> 10"
    using arg_cong [OF paths, of length] by simp
  have nodup: "distinct (map recent_path ?r)"
    by (simp add: paths)
  have eleven: "distinct (map fst adds) \<and> length adds = 11 \<longrightarrow>
        map recent_path ?r = take 10 (rev (map fst adds)) \<and> length ?r = 10"
  proof
    assume a: "distinct (map fst adds) \<and> length adds = 11"
    then have "map recent_path ?r = take 10 (rev (map fst adds))"
      by (simp add: paths distinct_remdups_id)
    moreover have "length ?r = 10"
    proof -
      have "length (map recent_path ?r) = length (take 10 (rev (remdups (map fst adds))))"
        by (simp only: paths)
      with a show ?thesis by (simp add: distinct_remdups_id)
    qed
    ultimately show "map recent_path ?r = take 10 (rev (map fst adds)) \<and> length ?r = 10" ..
  qed
  have again: "distinct (map recent_path stored) \<and> length stored \<le> 10
        \<and> p \<in> set (map recent_path stored) \<longrightarrow>
        recentAdd True t (Recent stored) p n
          = (True, Recent (\<lparr>recent_path = p, recent_name = n, recent_timestamp = t\<rparr>
                            # filter (\<lambda>r. recent_path r \<noteq> p) stored))
        \<and> length (\<lparr>recent_path = p, recent_name = n, recent_timestamp = t\<rparr>
                    # filter (\<lambda>r. recent_path r \<noteq> p) stored) = length stored
        \<and> distinct (map recent_path (\<lparr>recent_path = p, recent_name = n, recent_timestamp = t\<rparr>
                    # filter (\<lambda>r. recent_path r \<noteq> p) stored))"
  proof
    assume a: "distinct (map recent_path stored) \<and> length stored \<le> 10
        \<and> p \<in> set (map recent_path stored)"
    then have len: "Suc (length (filter (\<lambda>r. recent_path r \<noteq> p) stored)) = length stored"
      using length_filter_one by blast
    with a have "take 10 (\<lparr>recent_path = p, recent_name = n, recent_timestamp = t\<rparr>
                    # filter (\<lambda>r. recent_path r \<noteq> p) stored)
            = \<lparr>recent_path = p, recent_name = n, recent_timestamp = t\<rparr>
                    # filter (\<lambda>r. recent_path r \<noteq> p) stored"
      by simp
    moreover have "distinct (map recent_path (\<lparr>recent_path = p, recent_name = n, recent_timestamp = t\<rparr>
                    # filter (\<lambda>r. recent_path r \<noteq> p) stored))"
      using a distinct_filter_paths [of stored p] by auto
    ultimately show "recentAdd True t (Recent stored) p n
          = (True, Recent (\<lparr>recent_path = p, recent_name = n, recent_timestamp = t\<rparr>
                            # filter (\<lambda>r. recent_path r \<noteq> p) stored))
        \<and> length (\<lparr>recent_path = p, recent_name = n, recent_timestamp = t\<rparr>
                    # filter (\<lambda>r. recent_path r \<noteq> p) stored) = length stored
        \<and> distinct (map recent_path (\<lparr>recent_path = p, recent_name = n, recent_timestamp = t\<rparr>
                    # filter (\<lambda>r. recent_path r \<noteq> p) stored))"
      using len by (simp add: recentAdd_def Let_def del: take_Suc_Cons)
  qed
  have step: "recentAdd writable t f p n = (True, f') \<longrightarrow>
        length (entries f') \<le> 10
        \<and> take 1 (entries f') = [\<lparr>recent_path = p, recent_name = n, recent_timestamp = t\<rparr>]"
    by (cases f) (auto simp add: recentAdd_def Let_def split: if_splits)
  have failed: "recentAdd writable t f p n = (False, f') \<longrightarrow> f' = f"
    by (cases f) (auto simp add: recentAdd_def Let_def split: if_splits)
  from paths bound nodup eleven again step failed show ?thesis by blast
qed


theorem recent_list_bounded_witness:
  "map recent_path (entries (recentRun [(''/p/01'', ''P01'', 1), (''/p/02'', ''P02'', 2), (''/p/03'', ''P03'', 3), (''/p/04'', ''P04'', 4), (''/p/05'', ''P05'', 5), (''/p/06'', ''P06'', 6), (''/p/07'', ''P07'', 7), (''/p/08'', ''P08'', 8), (''/p/09'', ''P09'', 9), (''/p/10'', ''P10'', 10), (''/p/11'', ''P11'', 11)] NoFile))
     = [''/p/11'', ''/p/10'', ''/p/09'', ''/p/08'', ''/p/07'', ''/p/06'', ''/p/05'', ''/p/04'', ''/p/03'', ''/p/02'']
   \<and> length (entries (recentRun [(''/p/01'', ''P01'', 1), (''/p/02'', ''P02'', 2), (''/p/03'', ''P03'', 3), (''/p/04'', ''P04'', 4), (''/p/05'', ''P05'', 5), (''/p/06'', ''P06'', 6), (''/p/07'', ''P07'', 7), (''/p/08'', ''P08'', 8), (''/p/09'', ''P09'', 9), (''/p/10'', ''P10'', 10), (''/p/11'', ''P11'', 11)] NoFile)) = 10
   \<and> recentAdd True 12 (Recent [\<lparr>recent_path = ''/p/02'', recent_name = ''P02'', recent_timestamp = 2\<rparr>, \<lparr>recent_path = ''/p/01'', recent_name = ''P01'', recent_timestamp = 1\<rparr>]) ''/p/01'' ''P01''
     = (True, Recent [\<lparr>recent_path = ''/p/01'', recent_name = ''P01'', recent_timestamp = 12\<rparr>, \<lparr>recent_path = ''/p/02'', recent_name = ''P02'', recent_timestamp = 2\<rparr>])"
  using recent_list_bounded [of "[(''/p/01'', ''P01'', 1), (''/p/02'', ''P02'', 2), (''/p/03'', ''P03'', 3), (''/p/04'', ''P04'', 4), (''/p/05'', ''P05'', 5), (''/p/06'', ''P06'', 6), (''/p/07'', ''P07'', 7), (''/p/08'', ''P08'', 8), (''/p/09'', ''P09'', 9), (''/p/10'', ''P10'', 10), (''/p/11'', ''P11'', 11)]" "[\<lparr>recent_path = ''/p/02'', recent_name = ''P02'', recent_timestamp = 2\<rparr>, \<lparr>recent_path = ''/p/01'', recent_name = ''P01'', recent_timestamp = 1\<rparr>]" "''/p/01''" 12 "''P01''"]
  by simp

section \<open>Properties of the auto-save hook\<close>

lemma filter_referenced:
  "list_all (\<lambda>(i, due). r = Some i) ts \<Longrightarrow>
   filter (\<lambda>(i, due). i \<noteq> (case r of Some ident \<Rightarrow> ident | None \<Rightarrow> j)) ts = []"
  by (induction ts) (auto split: option.splits)

lemma markChanged_timers:
  assumes "enabled st" "timersReferenced st"
  shows "timers (markChanged st) = [(nextTimerId st, clock st + delay st)]
       \<and> timerRef (markChanged st) = Some (nextTimerId st)
       \<and> nextTimerId (markChanged st) = Suc (nextTimerId st)
       \<and> clock (markChanged st) = clock st \<and> delay (markChanged st) = delay st
       \<and> enabled (markChanged st) \<and> saveEntered (markChanged st) = saveEntered st
       \<and> providerCalls (markChanged st) = providerCalls st
       \<and> hasUnsavedChanges (markChanged st) \<and> saveStatus (markChanged st) = StatusUnsaved
       \<and> projectRef (markChanged st) = projectRef st
       \<and> isSavingRef (markChanged st) = isSavingRef st
       \<and> renderedUnsaved (markChanged st) = renderedUnsaved st"
proof (cases "timerRef st")
  case None
  with assms have "timers st = []"
    by (cases "timers st") (auto simp add: timersReferenced_def)
  with None assms show ?thesis
    by (simp add: markChanged_def Let_def setTimeout_def)
next
  case (Some ident)
  with assms have "filter (\<lambda>(i, due). i \<noteq> ident) (timers st) = []"
    using filter_referenced [of "timerRef st" "timers st" 0] by (simp add: timersReferenced_def)
  with Some assms show ?thesis
    by (simp add: markChanged_def Let_def setTimeout_def clearTimeout_def)
qed

lemma advanceTo_early:
  assumes "timers st = [] \<or> (\<exists>ident due. timers st = [(ident, due)] \<and> t < due)"
  shows "advanceTo t st = st\<lparr>clock := max (clock st) t\<rparr>"
  using assms by (auto simp add: advanceTo_def Let_def)

lemma advanceTo_due:
  assumes "timers st = [(ident, due)]" "due \<le> t" "clock st \<le> due"
  shows "saveEntered (advanceTo t st) = saveEntered st @ [due]
       \<and> timers (advanceTo t st) = []
       \<and> clock (advanceTo t st) = t
       \<and> providerCalls (advanceTo t st)
           = (case projectRef st of
                Some proj \<Rightarrow> if isSavingRef st then providerCalls st
                             else providerCalls st @ [(due, proj)]
              | None \<Rightarrow> providerCalls st)"
  using assms by (auto simp add: advanceTo_def Let_def fire_def save_def max_def split: option.splits)

lemma save_frame: "timers (save st) = timers st \<and> timerRef (save st) = timerRef st"
  by (simp add: save_def Let_def split: option.splits)

lemma fire_frame:
  "timers (fire timer st) = filter (\<lambda>(i, due). i \<noteq> fst timer) (timers st)
   \<and> timerRef (fire timer st) = timerRef st"
  by (simp add: fire_def save_frame)

lemma fold_fire_referenced:
  "timersReferenced st \<Longrightarrow> timersReferenced (fold fire ds st)"
proof (induction ds arbitrary: st)
  case Nil
  then show ?case by simp
next
  case (Cons d ds)
  from Cons.prems have "timersReferenced (fire d st)"
    by (auto simp add: timersReferenced_def fire_frame list_all_iff)
  then show ?case using Cons.IH by simp
qed

lemma cleanup_frame:
  "timerRef (cleanup captured st) = timerRef st
   \<and> set (timers (cleanup captured st)) \<subseteq> set (timers st)"
  by (auto simp add: cleanup_def clearTimeout_def Let_def split: option.splits)

lemma timersReferenced_preserved:
  assumes "timersReferenced st"
  shows "timersReferenced (markChanged st) \<and> timersReferenced (save st)
       \<and> timersReferenced (saveSettled ok st) \<and> timersReferenced (saveNow st)
       \<and> timersReferenced (advanceTo t st) \<and> timersReferenced (render st)
       \<and> timersReferenced (unmount st)"
proof -
  have mark: "timersReferenced (markChanged st)"
  proof (cases "enabled st")
    case True
    from markChanged_timers [OF True assms] show ?thesis
      by (simp add: timersReferenced_def)
  next
    case False
    with assms show ?thesis by (simp add: markChanged_def)
  qed
  have sv: "timersReferenced (save st)"
    using assms by (simp add: timersReferenced_def save_frame)
  have settled: "timersReferenced (saveSettled ok st)"
    using assms by (simp add: timersReferenced_def saveSettled_def)
  have now: "timersReferenced (saveNow st)"
  proof (cases "timerRef st")
    case None
    with assms show ?thesis by (simp add: saveNow_def timersReferenced_def save_frame)
  next
    case (Some ident)
    with assms have "filter (\<lambda>(i, due). i \<noteq> ident) (timers st) = []"
      using filter_referenced [of "timerRef st" "timers st" 0] by (simp add: timersReferenced_def)
    with Some show ?thesis
      by (simp add: saveNow_def timersReferenced_def save_frame clearTimeout_def)
  qed
  have adv: "timersReferenced (advanceTo t st)"
    using fold_fire_referenced [OF assms] by (simp add: advanceTo_def Let_def timersReferenced_def)
  have clean: "timersReferenced (cleanup captured st)" for captured
    using assms cleanup_frame [of captured st]
    by (auto simp add: timersReferenced_def list_all_iff)
  have rendered: "timersReferenced (render st)"
    using assms clean [of "renderedUnsaved st"]
    by (simp add: render_def timersReferenced_def)
  have unmounted: "timersReferenced (unmount st)"
    using clean by (simp add: unmount_def)
  from mark sv settled now adv rendered unmounted show ?thesis by blast
qed

text \<open>
  Coalescing. With auto-save enabled, mark the project as changed at the time of the
  clock and again at \<open>t2\<close>, before the delay has passed, each mark followed by a render.
  Then exactly one timeout is pending, due one delay after \<open>t2\<close>; \<open>save\<close> is not entered
  before that time and is entered exactly once at that time, when it calls the provider
  once, unless no project is loaded or a save is in flight.
\<close>

lemma render_markChanged:
  assumes "enabled st" "timersReferenced st"
  shows "(timers (render (markChanged st)) = []
          \<or> timers (render (markChanged st)) = [(nextTimerId st, clock st + delay st)])
       \<and> timerRef (render (markChanged st)) = Some (nextTimerId st)
       \<and> nextTimerId (render (markChanged st)) = Suc (nextTimerId st)
       \<and> clock (render (markChanged st)) = clock st \<and> delay (render (markChanged st)) = delay st
       \<and> enabled (render (markChanged st))
       \<and> saveEntered (render (markChanged st)) = saveEntered st
       \<and> providerCalls (render (markChanged st)) = providerCalls st
       \<and> hasUnsavedChanges (render (markChanged st)) \<and> renderedUnsaved (render (markChanged st))
       \<and> projectRef (render (markChanged st)) = projectRef st
       \<and> isSavingRef (render (markChanged st)) = isSavingRef st"
  using markChanged_timers [OF assms]
  by (cases "renderedUnsaved st") (simp_all add: render_def cleanup_def clearTimeout_def Let_def)

lemma marks_coalesce:
  assumes "enabled st" and "timersReferenced st"
      and "clock st \<le> t2" and "t2 < clock st + delay st"
  shows "timers (render (markChanged (advanceTo t2 (render (markChanged st)))))
           = [(Suc (nextTimerId st), t2 + delay st)]
       \<and> saveEntered (render (markChanged (advanceTo t2 (render (markChanged st)))))
           = saveEntered st
       \<and> (t < t2 + delay st \<longrightarrow>
            saveEntered (advanceTo t (render (markChanged (advanceTo t2 (render (markChanged st))))))
              = saveEntered st)
       \<and> (t2 + delay st \<le> t \<longrightarrow>
            saveEntered (advanceTo t (render (markChanged (advanceTo t2 (render (markChanged st))))))
              = saveEntered st @ [t2 + delay st]
            \<and> timers (advanceTo t (render (markChanged (advanceTo t2 (render (markChanged st))))))
              = []
            \<and> providerCalls (advanceTo t (render (markChanged (advanceTo t2 (render (markChanged st))))))
              = (case projectRef st of
                   Some proj \<Rightarrow> if isSavingRef st then providerCalls st
                                else providerCalls st @ [(t2 + delay st, proj)]
                 | None \<Rightarrow> providerCalls st))"
proof -
  let ?s1 = "render (markChanged st)"
  let ?s1' = "advanceTo t2 ?s1"
  let ?s2 = "render (markChanged ?s1')"
  note m1 = render_markChanged [OF assms(1,2)]
  have early: "?s1' = ?s1\<lparr>clock := t2\<rparr>"
    using advanceTo_early [of ?s1 t2] m1 assms(3,4) by (auto simp add: max_def)
  have e1: "enabled ?s1'" using m1 by (simp add: early)
  have r1: "timersReferenced ?s1'"
    using m1 by (auto simp add: early timersReferenced_def)
  have f1: "nextTimerId ?s1' = Suc (nextTimerId st)" "clock ?s1' = t2" "delay ?s1' = delay st"
    "saveEntered ?s1' = saveEntered st" "providerCalls ?s1' = providerCalls st"
    "projectRef ?s1' = projectRef st" "isSavingRef ?s1' = isSavingRef st"
    "renderedUnsaved ?s1'"
    using m1 by (simp_all add: early)
  note m2 = markChanged_timers [OF e1 r1]
  have same: "?s2 = markChanged ?s1'"
    using m2 f1(8) by (simp add: render_def)
  have pending: "timers ?s2 = [(Suc (nextTimerId st), t2 + delay st)]"
    using m2 by (simp add: same f1)
  have f2: "clock ?s2 = t2" "saveEntered ?s2 = saveEntered st" "providerCalls ?s2 = providerCalls st"
    "projectRef ?s2 = projectRef st" "isSavingRef ?s2 = isSavingRef st"
    using m2 by (simp_all add: same f1)
  have before: "t < t2 + delay st \<longrightarrow> saveEntered (advanceTo t ?s2) = saveEntered st"
    using advanceTo_early [of ?s2 t] pending by (simp add: f2)
  have at: "t2 + delay st \<le> t \<longrightarrow>
            saveEntered (advanceTo t ?s2) = saveEntered st @ [t2 + delay st]
            \<and> timers (advanceTo t ?s2) = []
            \<and> providerCalls (advanceTo t ?s2)
              = (case projectRef st of
                   Some proj \<Rightarrow> if isSavingRef st then providerCalls st
                                else providerCalls st @ [(t2 + delay st, proj)]
                 | None \<Rightarrow> providerCalls st)"
    using advanceTo_due [OF pending, of t] by (auto simp add: f2 split: option.splits)
  from pending f2(2) before at show ?thesis by blast
qed

text \<open>
  The in-flight flag. A call of \<open>save\<close> with a project loaded and no save in flight
  calls the provider and sets the flag; a call while the flag is set returns without
  calling the provider and without changing the state (but for the record of the
  call). So two requests for a save in a row, the second before the first has settled,
  call the provider once.
\<close>

lemma save_sets_flag:
  assumes "projectRef st = Some proj" "\<not> isSavingRef st"
  shows "isSavingRef (save st) \<and> saveStatus (save st) = StatusSaving
       \<and> providerCalls (save st) = providerCalls st @ [(clock st, proj)]"
  using assms by (simp add: save_def Let_def)

lemma save_in_flight:
  assumes "isSavingRef st"
  shows "save st = st\<lparr>saveEntered := saveEntered st @ [clock st]\<rparr>"
  using assms by (simp add: save_def Let_def split: option.splits)

lemma saveNow_twice:
  assumes "projectRef st = Some proj" "\<not> isSavingRef st"
  shows "providerCalls (saveNow (saveNow st)) = providerCalls st @ [(clock st, proj)]
       \<and> saveEntered (saveNow (saveNow st)) = saveEntered st @ [clock st, clock st]
       \<and> isSavingRef (saveNow (saveNow st))"
  using assms
  by (simp add: saveNow_def save_def clearTimeout_def Let_def split: option.splits)

text \<open>
  The clean-up function of the effect runs at every change of \<^verbatim>\<open>hasUnsavedChanges\<close>, not
  on unmount alone. When the first mark after a save sets the variable, the clean-up
  function clears the timeout that the mark has just set. When a successful save
  resets the variable, the clean-up function, which has captured the value true, calls
  the provider again.
\<close>

lemma first_mark_cancelled:
  assumes "enabled st" "timersReferenced st" "\<not> hasUnsavedChanges st" "\<not> renderedUnsaved st"
  shows "timers (render (markChanged st)) = []
       \<and> providerCalls (render (markChanged st)) = providerCalls st"
  using markChanged_timers [OF assms(1,2)] assms(4)
  by (simp add: render_def cleanup_def clearTimeout_def Let_def)

lemma settled_saves_again:
  assumes "hasUnsavedChanges st" "renderedUnsaved st" "projectRef st = Some proj"
  shows "providerCalls (render (saveSettled True st)) = providerCalls st @ [(clock st, proj)]"
  using assms
  by (simp add: render_def cleanup_def saveSettled_def clearTimeout_def Let_def
      split: option.splits)

text \<open>
  C5 at an input where the code departs from it. A hook is mounted with a project
  loaded, everything saved, auto-save enabled and a delay of 2000 ms. The project is
  marked as changed at 1000 and at 2500, each mark followed by a render. The timeout
  of the first mark is cleared by the clean-up function, and after the second mark one
  timeout is pending, due at 4500. At 4500 \<open>save\<close> is entered, once, and calls the
  provider; a manual save at 4550, while that save is in flight, enters \<open>save\<close> and
  calls nothing. The save settles with success at 4600 and the component renders:
  the clean-up function calls the provider a second time. The two marks have led to
  one call of \<open>save\<close> and to two calls of the provider's \<^verbatim>\<open>saveProject\<close>.
\<close>

theorem autosave_saves_twice:
  "(let project = \<lparr>project_id = ''project-1'', project_name = ''Demo'', carousels = [],
          createdAt = ''2026-01-01T00:00:00.000Z'', modifiedAt = ''2026-01-01T00:00:00.000Z'',
          description = None\<rparr>;
        mounted = \<lparr>delay = 2000, enabled = True, saveStatus = StatusSaved,
          hasUnsavedChanges = False, renderedUnsaved = False, timerRef = None,
          projectRef = Some project, isSavingRef = False, clock = 1000, timers = [],
          nextTimerId = 1, saveEntered = [], providerCalls = []\<rparr>;
        marked = render (markChanged mounted);
        markedAgain = render (markChanged (advanceTo 2500 marked));
        saving = advanceTo 4500 markedAgain;
        manual = saveNow (advanceTo 4550 saving);
        settled = render (saveSettled True (advanceTo 4600 manual))
    in timers marked = []
     \<and> timers markedAgain = [(2, 4500)]
     \<and> saveEntered (advanceTo 4499 markedAgain) = []
     \<and> saveEntered saving = [4500]
     \<and> providerCalls saving = [(4500, project)]
     \<and> isSavingRef saving
     \<and> saveEntered manual = [4500, 4550]
     \<and> providerCalls manual = [(4500, project)]
     \<and> saveEntered settled = [4500, 4550]
     \<and> providerCalls settled = [(4500, project), (4600, project)]
     \<and> saveStatus settled = StatusSaved \<and> timers settled = [])"
proof -
  let ?project = "\<lparr>project_id = ''project-1'', project_name = ''Demo'', carousels = [],
          createdAt = ''2026-01-01T00:00:00.000Z'', modifiedAt = ''2026-01-01T00:00:00.000Z'',
          description = None\<rparr>"
  let ?mounted = "\<lparr>delay = 2000, enabled = True, saveStatus = StatusSaved,
          hasUnsavedChanges = False, renderedUnsaved = False, timerRef = None,
          projectRef = Some ?project, isSavingRef = False, clock = 1000, timers = [],
          nextTimerId = 1, saveEntered = [], providerCalls = []\<rparr>"
  let ?marked = "\<lparr>delay = 2000, enabled = True, saveStatus = StatusUnsaved,
          hasUnsavedChanges = True, renderedUnsaved = True, timerRef = Some 1,
          projectRef = Some ?project, isSavingRef = False, clock = 1000, timers = [],
          nextTimerId = 2, saveEntered = [], providerCalls = []\<rparr>"
  let ?markedAgain = "\<lparr>delay = 2000, enabled = True, saveStatus = StatusUnsaved,
          hasUnsavedChanges = True, renderedUnsaved = True, timerRef = Some 2,
          projectRef = Some ?project, isSavingRef = False, clock = 2500, timers = [(2, 4500)],
          nextTimerId = 3, saveEntered = [], providerCalls = []\<rparr>"
  let ?saving = "\<lparr>delay = 2000, enabled = True, saveStatus = StatusSaving,
          hasUnsavedChanges = True, renderedUnsaved = True, timerRef = Some 2,
          projectRef = Some ?project, isSavingRef = True, clock = 4500, timers = [],
          nextTimerId = 3, saveEntered = [4500], providerCalls = [(4500, ?project)]\<rparr>"
  let ?manual = "\<lparr>delay = 2000, enabled = True, saveStatus = StatusSaving,
          hasUnsavedChanges = True, renderedUnsaved = True, timerRef = None,
          projectRef = Some ?project, isSavingRef = True, clock = 4550, timers = [],
          nextTimerId = 3, saveEntered = [4500, 4550], providerCalls = [(4500, ?project)]\<rparr>"
  let ?settled = "\<lparr>delay = 2000, enabled = True, saveStatus = StatusSaved,
          hasUnsavedChanges = False, renderedUnsaved = False, timerRef = None,
          projectRef = Some ?project, isSavingRef = False, clock = 4600, timers = [],
          nextTimerId = 3, saveEntered = [4500, 4550], providerCalls = [(4500, ?project), (4600, ?project)]\<rparr>"
  have marked: "render (markChanged ?mounted) = ?marked"
    by (simp add: markChanged_def render_def cleanup_def setTimeout_def clearTimeout_def)
  have markedAgain: "render (markChanged (advanceTo 2500 ?marked)) = ?markedAgain"
    by (simp add: markChanged_def render_def advanceTo_def setTimeout_def clearTimeout_def)
  have early: "saveEntered (advanceTo 4499 ?markedAgain) = []"
    by (simp add: advanceTo_def)
  have saving: "advanceTo 4500 ?markedAgain = ?saving"
    by (simp add: advanceTo_def fire_def save_def)
  have manual: "saveNow (advanceTo 4550 ?saving) = ?manual"
    by (simp add: advanceTo_def saveNow_def save_def clearTimeout_def)
  have settled: "render (saveSettled True (advanceTo 4600 ?manual)) = ?settled"
    by (simp add: advanceTo_def saveSettled_def render_def cleanup_def)
  show ?thesis
    unfolding Let_def marked markedAgain early saving manual settled by simp
qed

end
